theory Spec2Isabelle
  imports Complex_Main "HOL-Library.Char_ord" "HOL-Library.List_Lexorder"
begin

section \<open>Data model of \<^verbatim>\<open>chat_gemini.py\<close>\<close>

text \<open>
  The module \<^verbatim>\<open>MAVProxy/modules/mavproxy_chat/chat_gemini.py\<close> defines the class
  \<^verbatim>\<open>ChatGemini\<close>. Its methods are embedded below as functions on an explicit session
  state. Everything the class reaches outside itself (the \<^verbatim>\<open>google.generativeai\<close>
  client, the \<^verbatim>\<open>json\<close> and \<^verbatim>\<open>re\<close> modules, the clock, the vehicle behind
  \<^verbatim>\<open>mpstate\<close>) is a field of the record \<open>world\<close>; every observable effect
  (console output, callbacks, requests to the backend, commands to the vehicle) is
  appended to the event trace of the session.
\<close>

subsection \<open>Python values and exceptions\<close>

text \<open>An exception caught by \<^verbatim>\<open>except Exception as e\<close>; \<open>str_of\<close> is \<^verbatim>\<open>str(e)\<close>.\<close>

datatype exn = Exn (str_of: string)

text \<open>
  The values that travel through tool arguments and tool results: what \<^verbatim>\<open>json.loads\<close>
  yields and \<^verbatim>\<open>json.dumps\<close> accepts. A dict keeps its insertion order, so it is an
  association list. Finite floats are carried as rationals; no arithmetic is done on them.
\<close>

datatype pyval =
    PNone
  | PBool bool
  | PInt int
  | PFloat rat
  | PStr string
  | PList "pyval list"
  | PDict "(string \<times> pyval) list"

fun type_name :: "pyval \<Rightarrow> string" where
  "type_name PNone = ''NoneType''"
| "type_name (PBool b) = ''bool''"
| "type_name (PInt i) = ''int''"
| "type_name (PFloat f) = ''float''"
| "type_name (PStr s) = ''str''"
| "type_name (PList l) = ''list''"
| "type_name (PDict d) = ''dict''"

definition attribute_error :: "pyval \<Rightarrow> string \<Rightarrow> exn" where
  "attribute_error v attr =
     Exn ([CHR 0x27] @ type_name v @ [CHR 0x27] @ '' object has no attribute ''
          @ [CHR 0x27] @ attr @ [CHR 0x27])"

text \<open>\<^verbatim>\<open>d.get(key, None)\<close> on a dict.\<close>

definition dict_get :: "(string \<times> pyval) list \<Rightarrow> string \<Rightarrow> pyval" where
  "dict_get d key = (case map_of d key of None \<Rightarrow> PNone | Some v \<Rightarrow> v)"

text \<open>\<^verbatim>\<open>d[key] = v\<close>: an existing key keeps its position, a new key goes last.\<close>

fun dict_set :: "(string \<times> pyval) list \<Rightarrow> string \<Rightarrow> pyval \<Rightarrow> (string \<times> pyval) list" where
  "dict_set [] key v = [(key, v)]"
| "dict_set ((k, x) # d) key v = (if k = key then (k, v) # d else (k, x) # dict_set d key v)"

text \<open>
  \<^verbatim>\<open>arguments.get(key, None)\<close>, where \<^verbatim>\<open>arguments\<close> is whatever \<^verbatim>\<open>json.loads\<close> returned:
  only a dict has the method \<^verbatim>\<open>get\<close>, any other value raises \<^verbatim>\<open>AttributeError\<close>.
\<close>

definition arguments_get :: "pyval \<Rightarrow> string \<Rightarrow> exn + pyval" where
  "arguments_get arguments key =
     (case arguments of
        PDict d \<Rightarrow> Inr (dict_get d key)
      | _ \<Rightarrow> Inl (attribute_error arguments ''get''))"

subsection \<open>Backend responses\<close>

text \<open>
  A function-call directive: \<^verbatim>\<open>function_call.name\<close> (\<open>None\<close> and the empty string are
  both falsy) and \<^verbatim>\<open>function_call.args\<close>, the blob handed to \<^verbatim>\<open>json.loads\<close>.
\<close>

datatype function_call = FunctionCall (fc_name: "string option") (fc_args: string)

text \<open>
  A part of a candidate's content. \<open>part_text\<close> is \<open>None\<close> when the part has no attribute
  \<^verbatim>\<open>text\<close>; \<open>part_function_call\<close> is \<open>None\<close> when it has no attribute \<^verbatim>\<open>function_call\<close>.
\<close>

datatype part = Part (part_text: "string option") (part_function_call: "function_call option")

text \<open>
  A candidate; \<open>content\<close> is \<open>None\<close> when the candidate has no attribute \<^verbatim>\<open>content\<close> or
  a falsy one, and the list of \<^verbatim>\<open>content.parts\<close> otherwise.
\<close>

datatype candidate = Candidate (content: "part list option")

text \<open>
  What \<^verbatim>\<open>chat.send_message\<close> returns: a falsy response, a malformed object on which
  reading \<^verbatim>\<open>response.candidates\<close> raises, or a response with its list of candidates.
\<close>

datatype response = NoResponse | Malformed exn | Response "candidate list"

subsection \<open>Events, session and world\<close>

datatype event =
    Print string
  | Status string
  | Reply string
  | InitializeModel
  | GenerateContent string
  | SendMessage string
  | ProcessStdin string
  | ParamSet pyval pyval

text \<open>An entry of \<^verbatim>\<open>wakeup_schedule\<close>: the dict \<^verbatim>\<open>{"time": ..., "message": ...}\<close>.\<close>

datatype wakeup_timer = WakeupTimer (timer_time: real) (timer_message: string)

text \<open>
  The attributes of a \<^verbatim>\<open>ChatGemini\<close> object. \<open>model\<close> and \<open>chat\<close> say whether
  \<^verbatim>\<open>self.model\<close> and \<^verbatim>\<open>self.chat\<close> are set, \<open>status_cb\<close> and \<open>reply_cb\<close> whether a
  callback is installed, \<open>send_lock\<close> whether the lock is held.
\<close>

record session =
  api_key :: "string option"
  model :: bool
  chat :: bool
  status_cb :: bool
  reply_cb :: bool
  send_lock :: bool
  wakeup_schedule :: "wakeup_timer list"
  events :: "event list"

text \<open>The outcome of the \<^verbatim>\<open>try\<close> block of \<^verbatim>\<open>initialize_model\<close>.\<close>

datatype init_outcome =
    InitOk
  | ModelFailed exn  \<comment> \<open>raised before \<^verbatim>\<open>self.model\<close> was assigned\<close>
  | ChatFailed exn   \<comment> \<open>\<^verbatim>\<open>self.model\<close> assigned, \<^verbatim>\<open>start_chat\<close> raised\<close>

text \<open>The MAVLink vehicle types that \<^verbatim>\<open>get_vehicle_type\<close> compares against.\<close>

datatype mav_type =
    MAV_TYPE_FIXED_WING | MAV_TYPE_VTOL_DUOROTOR | MAV_TYPE_VTOL_QUADROTOR
  | MAV_TYPE_VTOL_TILTROTOR | MAV_TYPE_GROUND_ROVER | MAV_TYPE_SURFACE_BOAT
  | MAV_TYPE_SUBMARINE | MAV_TYPE_QUADROTOR | MAV_TYPE_COAXIAL | MAV_TYPE_HEXAROTOR
  | MAV_TYPE_OCTOROTOR | MAV_TYPE_TRICOPTER | MAV_TYPE_DODECAROTOR | MAV_TYPE_HELICOPTER
  | MAV_TYPE_ANTENNA_TRACKER | MAV_TYPE_AIRSHIP | MAV_TYPE_OTHER nat

datatype heartbeat = Heartbeat (hb_type: mav_type) (custom_mode: int)

text \<open>
  The collaborators. Each one that is asked at run time takes the trace of events so far,
  so its answer may change from call to call; an answer \<open>Inl e\<close> (or \<open>Some e\<close> where there
  is no result) is the exception it raises.
\<close>

record world =
  genai_init :: "event list \<Rightarrow> init_outcome"
  generate_content :: "event list \<Rightarrow> exn option"
  send_message :: "event list \<Rightarrow> exn + response"
  json_loads :: "string \<Rightarrow> exn + pyval"
  json_dumps :: "pyval \<Rightarrow> exn + string"
  re_compile :: "string \<Rightarrow> exn + (string \<Rightarrow> bool)"
  strftime_now :: "event list \<Rightarrow> string"
  get_heartbeat :: "event list \<Rightarrow> exn + heartbeat option"
  motors_armed :: "event list \<Rightarrow> exn + int"
  mav_param :: "event list \<Rightarrow> (string \<times> pyval) list"
  process_stdin :: "event list \<Rightarrow> exn option"
  param_set :: "event list \<Rightarrow> exn option"

subsection \<open>Output helpers\<close>

definition emit :: "event \<Rightarrow> session \<Rightarrow> session" where
  "emit e s = s\<lparr>events := events s @ [e]\<rparr>"

definition print :: "string \<Rightarrow> session \<Rightarrow> session" where
  "print text s = emit (Print text) s"

definition send_status :: "string \<Rightarrow> session \<Rightarrow> session" where
  "send_status status s = (if status_cb s then emit (Status status) s else s)"

definition send_reply :: "string \<Rightarrow> session \<Rightarrow> session" where
  "send_reply reply s = (if reply_cb s then emit (Reply reply) s else s)"

section \<open>Tool handlers\<close>

text \<open>
  A handler is a bound method \<^verbatim>\<open>self.f(arguments)\<close>: it returns a value or raises, and
  may add events to the trace.
\<close>

type_synonym handler = "world \<Rightarrow> pyval \<Rightarrow> session \<Rightarrow> (exn + pyval) \<times> session"

subsection \<open>\<^verbatim>\<open>contains_regex\<close>\<close>

definition regex_characters :: string where
  "regex_characters = ''.^$*+?{}[]'' @ [CHR 0x5C] @ ''|()''"

text \<open>
  \<^verbatim>\<open>for x in regex_characters: if string.count(x): return True\<close>, then
  \<^verbatim>\<open>return False\<close>.
\<close>

fun contains_regex_loop :: "string \<Rightarrow> string \<Rightarrow> bool" where
  "contains_regex_loop [] string = False"
| "contains_regex_loop (x # xs) string =
     (if count_list string x \<noteq> 0 then True else contains_regex_loop xs string)"

definition contains_regex :: "string \<Rightarrow> bool" where
  "contains_regex string = contains_regex_loop regex_characters string"

subsection \<open>\<^verbatim>\<open>get_parameter\<close>\<close>

text \<open>
  Modelled from the spec: \<^verbatim>\<open>mpstate.functions.get_mav_param(name, None)\<close> is not part of
  the module; the spec gives the vehicle facade \<^verbatim>\<open>get_parameter(name) -> optional value\<close>,
  a lookup in the parameter store \<^verbatim>\<open>mpstate.mav_param\<close> that yields \<^verbatim>\<open>None\<close> for a
  name the store does not hold.
\<close>

definition get_mav_param :: "(string \<times> pyval) list \<Rightarrow> string \<Rightarrow> pyval" where
  "get_mav_param store param_name = dict_get store param_name"

text \<open>
  The loop \<^verbatim>\<open>for existing_param_name in sorted(self.mpstate.mav_param.keys())\<close>, threading
  \<^verbatim>\<open>param_list\<close> and the trace.
\<close>

fun get_parameter_loop ::
  "(string \<Rightarrow> bool) \<Rightarrow> (string \<times> pyval) list \<Rightarrow> string list \<Rightarrow>
   (string \<times> pyval) list \<times> session \<Rightarrow> (string \<times> pyval) list \<times> session" where
  "get_parameter_loop pattern store [] acc = acc"
| "get_parameter_loop pattern store (existing_param_name # rest) (param_list, s) =
     get_parameter_loop pattern store rest
       (if pattern existing_param_name then
          (case get_mav_param store existing_param_name of
             PNone \<Rightarrow>
               (param_list, print (''chat: get_parameter unable to get '' @ existing_param_name) s)
           | param_value \<Rightarrow> (dict_set param_list existing_param_name param_value, s))
        else (param_list, s))"

text \<open>
  A name that is not a string has no usable \<^verbatim>\<open>count\<close>: \<^verbatim>\<open>contains_regex\<close> raises
  \<^verbatim>\<open>AttributeError\<close>, or, for a list, the lookup that follows raises \<^verbatim>\<open>TypeError\<close>.
\<close>

definition get_parameter :: handler where
  "get_parameter w arguments s =
     (case arguments_get arguments ''name'' of
        Inl e \<Rightarrow> (Inl e, s)
      | Inr PNone \<Rightarrow> (Inr (PStr ''get_parameter: name not specified''), s)
      | Inr (PStr param_name) \<Rightarrow>
          (let store = mav_param w (events s) in
           if contains_regex param_name then
             (case re_compile w param_name of
                Inl e \<Rightarrow> (Inl e, s)
              | Inr pattern \<Rightarrow>
                  (case get_parameter_loop pattern store (sort (map fst store)) ([], s) of
                     (param_list, s') \<Rightarrow> (Inr (PDict param_list), s')))
           else
             (case get_mav_param store param_name of
                PNone \<Rightarrow>
                  (Inr (PStr (''get_parameter: '' @ param_name @ '' parameter not found'')), s)
              | param_value \<Rightarrow> (Inr (PDict (dict_set [] param_name param_value)), s)))
      | Inr (PList l) \<Rightarrow>
          (Inl (Exn (''unhashable type: '' @ [CHR 0x27] @ ''list'' @ [CHR 0x27])), s)
      | Inr v \<Rightarrow> (Inl (attribute_error v ''count''), s))"

subsection \<open>The other handlers\<close>

definition get_current_datetime :: handler where
  "get_current_datetime w arguments s = (Inr (PStr (strftime_now w (events s))), s)"

text \<open>The chain of \<^verbatim>\<open>if\<close> statements of \<^verbatim>\<open>get_vehicle_type\<close>, each one overwriting.\<close>

definition vehicle_type_str :: "mav_type \<Rightarrow> string" where
  "vehicle_type_str t =
     (let v = ''unknown'';
          v = (if t \<in> set [MAV_TYPE_FIXED_WING, MAV_TYPE_VTOL_DUOROTOR,
                            MAV_TYPE_VTOL_QUADROTOR, MAV_TYPE_VTOL_TILTROTOR]
               then ''Plane'' else v);
          v = (if t = MAV_TYPE_GROUND_ROVER then ''Rover'' else v);
          v = (if t = MAV_TYPE_SURFACE_BOAT then ''Boat'' else v);
          v = (if t = MAV_TYPE_SUBMARINE then ''Sub'' else v);
          v = (if t \<in> set [MAV_TYPE_QUADROTOR, MAV_TYPE_COAXIAL, MAV_TYPE_HEXAROTOR,
                            MAV_TYPE_OCTOROTOR, MAV_TYPE_TRICOPTER, MAV_TYPE_DODECAROTOR]
               then ''Copter'' else v);
          v = (if t = MAV_TYPE_HELICOPTER then ''Heli'' else v);
          v = (if t = MAV_TYPE_ANTENNA_TRACKER then ''Tracker'' else v);
          v = (if t = MAV_TYPE_AIRSHIP then ''Blimp'' else v)
      in v)"

definition get_vehicle_type :: handler where
  "get_vehicle_type w arguments s =
     (case get_heartbeat w (events s) of
        Inl e \<Rightarrow> (Inl e, s)
      | Inr hearbeat_msg \<Rightarrow>
          (Inr (PDict [(''vehicle_type'',
                        PStr (case hearbeat_msg of
                                None \<Rightarrow> ''unknown''
                              | Some h \<Rightarrow> vehicle_type_str (hb_type h)))]), s))"

text \<open>ASCII \<^verbatim>\<open>str.upper()\<close>.\<close>

definition upper_char :: "char \<Rightarrow> char" where
  "upper_char c =
     (if CHR ''a'' \<le> c \<and> c \<le> CHR ''z'' then char_of (of_char c - (32::nat)) else c)"

definition upper :: "string \<Rightarrow> string" where
  "upper m = map upper_char m"

definition set_vehicle_mode :: handler where
  "set_vehicle_mode w arguments s =
     (case arguments_get arguments ''mode'' of
        Inl e \<Rightarrow> (Inl e, s)
      | Inr PNone \<Rightarrow> (Inr (PStr ''set_vehicle_mode: mode not specified''), s)
      | Inr (PStr m) \<Rightarrow>
          (let mode = upper m;
               s1 = emit (ProcessStdin (''mode '' @ mode)) s
           in case process_stdin w (events s1) of
                None \<Rightarrow>
                  (Inr (PStr (''set_vehicle_mode: Requested mode change to '' @ mode)), s1)
              | Some e \<Rightarrow>
                  (Inr (PStr (''set_vehicle_mode: Failed to set mode to '' @ mode @ '' - ''
                              @ str_of e)), s1))
      | Inr v \<Rightarrow> (Inl (attribute_error v ''upper''), s))"

definition get_vehicle_state :: handler where
  "get_vehicle_state w arguments s =
     (case get_heartbeat w (events s) of
        Inl e \<Rightarrow> (Inl e, s)
      | Inr hearbeat_msg \<Rightarrow>
          (case (case hearbeat_msg of
                   None \<Rightarrow> (0, print ''chat: get_vehicle_state: vehicle mode is unknown'' s)
                 | Some h \<Rightarrow> (custom_mode h, s)) of
             (mode_number, s1) \<Rightarrow>
               (case motors_armed w (events s1) of
                  Inl e \<Rightarrow> (Inl e, s1)
                | Inr armed \<Rightarrow>
                    (Inr (PDict [(''armed'', PBool (armed > 0)), (''mode'', PInt mode_number)]),
                     s1))))"

definition set_parameter :: handler where
  "set_parameter w arguments s =
     (case arguments_get arguments ''name'' of
        Inl e \<Rightarrow> (Inl e, s)
      | Inr PNone \<Rightarrow> (Inr (PStr ''set_parameter: parameter name not specified''), s)
      | Inr param_name \<Rightarrow>
          (case arguments_get arguments ''value'' of
             Inl e \<Rightarrow> (Inl e, s)
           | Inr PNone \<Rightarrow> (Inr (PStr ''set_parameter: value not specified''), s)
           | Inr param_value \<Rightarrow>
               (let s1 = emit (ParamSet param_name param_value) s
                in case param_set w (events s1) of
                     Some e \<Rightarrow> (Inl e, s1)
                   | None \<Rightarrow> (Inr (PStr ''set_parameter: parameter value set''), s1))))"

section \<open>The tool registry\<close>

text \<open>
  An entry of the dict returned by \<^verbatim>\<open>define_tools\<close>: the description, the properties of
  the parameter schema (name, type, description), the required names and the bound method.
\<close>

record tool =
  description :: string
  properties :: "(string \<times> string \<times> string) list"
  required :: "string list"
  tool_function :: handler

definition define_tools :: "(string \<times> tool) list" where
  "define_tools =
     [(''get_current_datetime'',
       \<lparr>description = ''Get the current date and time'',
        properties = [(''_dummy'', ''string'', ''This parameter is not used'')],
        required = [],
        tool_function = get_current_datetime\<rparr>),
      (''get_vehicle_type'',
       \<lparr>description = ''Get the type of vehicle (Copter, Plane, Rover, etc.)'',
        properties = [(''_dummy'', ''string'', ''This parameter is not used'')],
        required = [],
        tool_function = get_vehicle_type\<rparr>),
      (''get_vehicle_state'',
       \<lparr>description =
          ''Get the current state of the vehicle including armed status and mode'',
        properties = [(''_dummy'', ''string'', ''This parameter is not used'')],
        required = [],
        tool_function = get_vehicle_state\<rparr>),
      (''get_parameter'',
       \<lparr>description = ''Get a vehicle parameter value'',
        properties = [(''name'', ''string'', ''The name of the parameter to get'')],
        required = [''name''],
        tool_function = get_parameter\<rparr>),
      (''set_parameter'',
       \<lparr>description = ''Set a vehicle parameter value'',
        properties = [(''name'', ''string'', ''The name of the parameter to set''),
                      (''value'', ''number'', ''The value to set the parameter to'')],
        required = [''name'', ''value''],
        tool_function = set_parameter\<rparr>),
      (''set_vehicle_mode'',
       \<lparr>description = ''Set the vehicle flight mode'',
        properties = [(''mode'', ''string'',
                       ''The mode to set (e.g., '' @ [CHR 0x27] @ ''GUIDED'' @ [CHR 0x27]
                       @ '', '' @ [CHR 0x27] @ ''AUTO'' @ [CHR 0x27] @ '', '' @ [CHR 0x27]
                       @ ''STABILIZE'' @ [CHR 0x27] @ '', etc.)'')],
        required = [''mode''],
        tool_function = set_vehicle_mode\<rparr>)]"

section \<open>The chat session\<close>

subsection \<open>Connecting\<close>

text \<open>
  \<^verbatim>\<open>initialize_model\<close>: the whole body is one \<^verbatim>\<open>try\<close>; \<^verbatim>\<open>self.model\<close> and \<^verbatim>\<open>self.chat\<close>
  are assigned in that order, so a failure of \<^verbatim>\<open>start_chat\<close> leaves the model set and
  the chat as it was.
\<close>

definition initialize_model :: "world \<Rightarrow> session \<Rightarrow> bool \<times> session" where
  "initialize_model w s =
     (let s1 = emit InitializeModel s in
      case genai_init w (events s1) of
        InitOk \<Rightarrow>
          (True, print ''chat: Successfully configured Gemini API''
                   (s1\<lparr>model := True, chat := True\<rparr>))
      | ModelFailed e \<Rightarrow>
          (False, print (''chat: Failed to initialize Gemini model: '' @ str_of e) s1)
      | ChatFailed e \<Rightarrow>
          (False, print (''chat: Failed to initialize Gemini model: '' @ str_of e)
                    (s1\<lparr>model := True\<rparr>)))"

text \<open>\<^verbatim>\<open>not self.api_key\<close> holds for \<^verbatim>\<open>None\<close> and for the empty string.\<close>

definition check_connection :: "world \<Rightarrow> session \<Rightarrow> bool \<times> session" where
  "check_connection w s =
     (if api_key s = None \<or> api_key s = Some [] then
        (False, print (''chat: Gemini API key not set. Use '' @ [CHR 0x27]
                       @ ''chat set_gemini_key YOUR_API_KEY'' @ [CHR 0x27]) s)
      else
        (case (if \<not> model s then initialize_model w s else (True, s)) of
           (False, s1) \<Rightarrow> (False, s1)
         | (True, s1) \<Rightarrow>
             (let s2 = emit (GenerateContent ''Test connection'') s1 in
              case generate_content w (events s2) of
                None \<Rightarrow> (True, s2)
              | Some e \<Rightarrow>
                  (False, print (''chat: failed to connect to Gemini API: '' @ str_of e) s2))))"

text \<open>
  \<^verbatim>\<open>self.chat.send_message(text)\<close>: without a chat object the attribute access raises
  before anything is sent.
\<close>

definition chat_send_message :: "world \<Rightarrow> string \<Rightarrow> session \<Rightarrow> (exn + response) \<times> session" where
  "chat_send_message w text s =
     (if chat s then
        (let s1 = emit (SendMessage text) s in (send_message w (events s1), s1))
      else (Inl (attribute_error PNone ''send_message''), s))"

subsection \<open>Dispatch\<close>

definition supported_funcs :: "string list" where
  "supported_funcs =
     [''get_current_datetime'', ''get_vehicle_type'', ''get_vehicle_state'',
      ''get_parameter'', ''set_parameter'']"

text \<open>
  \<^verbatim>\<open>getattr(self, func_name, None)\<close> on the tool methods of the class. Other attributes
  of the object are not \<^verbatim>\<open>None\<close> either, but none of their names is in
  \<^verbatim>\<open>supported_funcs\<close>, so the test that follows rejects them all the same.
\<close>

definition getattr_self :: "string \<Rightarrow> handler option" where
  "getattr_self func_name =
     (if func_name = ''get_current_datetime'' then Some get_current_datetime
      else if func_name = ''get_vehicle_type'' then Some get_vehicle_type
      else if func_name = ''set_vehicle_mode'' then Some set_vehicle_mode
      else if func_name = ''get_vehicle_state'' then Some get_vehicle_state
      else if func_name = ''get_parameter'' then Some get_parameter
      else if func_name = ''set_parameter'' then Some set_parameter
      else None)"

text \<open>
  Lines 291 to 305 of \<^verbatim>\<open>handle_function_call\<close>: the call of a supported function with
  its \<^verbatim>\<open>try\<close>, or the rejection of the name. The result is \<^verbatim>\<open>output\<close>.
\<close>

definition call_function :: "world \<Rightarrow> string \<Rightarrow> pyval \<Rightarrow> session \<Rightarrow> pyval \<times> session" where
  "call_function w func_name arguments s =
     (case (if func_name \<in> set supported_funcs then getattr_self func_name else None) of
        Some func \<Rightarrow>
          (case func w arguments s of
             (Inr output, s1) \<Rightarrow> (output, s1)
           | (Inl e, s1) \<Rightarrow>
               (let error_message = func_name @ '': function call failed - '' @ str_of e
                in (PStr error_message, print (''chat: '' @ error_message) s1)))
      | None \<Rightarrow>
          (PStr (''Unrecognized function call: '' @ func_name),
           print (''chat: Unrecognized function name: '' @ func_name) s))"

subsection \<open>The response loop\<close>

text \<open>
  \<^verbatim>\<open>handle_gemini_response\<close> and \<^verbatim>\<open>handle_function_call\<close> call each other for as long as
  the backend answers a function result with another function call, so the recursion
  need not end. The first argument is fuel: it is spent by one when
  \<^verbatim>\<open>handle_function_call\<close> hands the next response to \<^verbatim>\<open>handle_gemini_response\<close>, and
  the result is \<open>None\<close> when it runs out. \<open>handle_candidates\<close> and \<open>handle_parts\<close> are the
  two nested \<^verbatim>\<open>for\<close> loops of \<^verbatim>\<open>handle_gemini_response\<close>.

  \<^verbatim>\<open>handle_gemini_response\<close> returns \<open>Inl e\<close> when it raises \<open>e\<close>.
  \<^verbatim>\<open>handle_function_call\<close> has no such result: past the test of the name, each of its
  statements that can raise stands in a \<^verbatim>\<open>try\<close> that catches everything.
\<close>

function handle_gemini_response ::
    "nat \<Rightarrow> world \<Rightarrow> response \<Rightarrow> session \<Rightarrow> ((exn + unit) \<times> session) option"
  and handle_candidates :: "nat \<Rightarrow> world \<Rightarrow> candidate list \<Rightarrow> session \<Rightarrow> session option"
  and handle_parts :: "nat \<Rightarrow> world \<Rightarrow> part list \<Rightarrow> session \<Rightarrow> session option"
  and handle_function_call :: "nat \<Rightarrow> world \<Rightarrow> function_call \<Rightarrow> session \<Rightarrow> session option"
where
  "handle_gemini_response n w NoResponse s =
     Some (Inr (), send_reply ''No response received from Gemini'' s)"
| "handle_gemini_response n w (Malformed e) s = Some (Inl e, s)"
| "handle_gemini_response n w (Response candidates) s =
     (if candidates = [] then Some (Inr (), send_reply ''No response received from Gemini'' s)
      else
        (case handle_candidates n w candidates s of
           None \<Rightarrow> None
         | Some s1 \<Rightarrow> Some (Inr (), send_status ''Ready'' s1)))"
| "handle_candidates n w [] s = Some s"
| "handle_candidates n w (c # rest) s =
     (case content c of
        None \<Rightarrow> handle_candidates n w rest s
      | Some parts \<Rightarrow>
          (case handle_parts n w parts s of
             None \<Rightarrow> None
           | Some s1 \<Rightarrow> handle_candidates n w rest s1))"
| "handle_parts n w [] s = Some s"
| "handle_parts n w (p # rest) s =
     (case (case part_text p of
              None \<Rightarrow> s
            | Some t \<Rightarrow> if t \<noteq> [] then send_reply t s else s) of
        s1 \<Rightarrow>
          (case part_function_call p of
             None \<Rightarrow> handle_parts n w rest s1
           | Some fc \<Rightarrow>
               (case handle_function_call n w fc s1 of
                  None \<Rightarrow> None
                | Some s2 \<Rightarrow> handle_parts n w rest s2)))"
| "handle_function_call n w fc s =
     (case (case fc_name fc of None \<Rightarrow> [] | Some func_name \<Rightarrow> func_name) of
        [] \<Rightarrow> Some (print ''chat: Empty function name received'' s)
      | x # xs \<Rightarrow>
          (case (x # xs, case json_loads w (fc_args fc) of Inl e \<Rightarrow> PDict [] | Inr v \<Rightarrow> v) of
             (func_name, arguments) \<Rightarrow>
               (case call_function w func_name arguments
                       (print (''chat: Handling function call: '' @ func_name) s) of
                  (output, s1) \<Rightarrow>
                    (case json_dumps w output of
                       Inl e \<Rightarrow>
                         Some (print (''chat: Error sending function response: '' @ str_of e) s1)
                     | Inr result_json \<Rightarrow>
                         (case chat_send_message w
                                 (''Function result for '' @ func_name @ '': '' @ result_json)
                                 s1 of
                            (Inl e, s2) \<Rightarrow>
                              Some (print (''chat: Error sending function response: ''
                                           @ str_of e) s2)
                          | (Inr response, s2) \<Rightarrow>
                              (case n of
                                 0 \<Rightarrow> None
                               | Suc m \<Rightarrow>
                                   (case handle_gemini_response m w response s2 of
                                      None \<Rightarrow> None
                                    | Some (Inl e, s3) \<Rightarrow>
                                        Some (print (''chat: Error sending function response: ''
                                                     @ str_of e) s3)
                                    | Some (Inr u, s3) \<Rightarrow> Some s3)))))))"
  by pat_completeness auto
termination
  by (relation "inv_image (less_than <*lex*> less_than <*lex*> less_than)
        (\<lambda>x. case x of
           Inl (Inl (n, w, r, s)) \<Rightarrow> (n, 3::nat, 0::nat)
         | Inl (Inr (n, w, cs, s)) \<Rightarrow> (n, 2, length cs)
         | Inr (Inl (n, w, ps, s)) \<Rightarrow> (n, 1, length ps)
         | Inr (Inr (n, w, fc, s)) \<Rightarrow> (n, 0, 0))") auto

subsection \<open>\<^verbatim>\<open>send_to_assistant\<close>\<close>

text \<open>The \<^verbatim>\<open>except Exception as e\<close> clause of \<^verbatim>\<open>send_to_assistant\<close>.\<close>

definition send_error :: "exn \<Rightarrow> session \<Rightarrow> session" where
  "send_error e s =
     (let error_message = ''Error: '' @ str_of e
      in send_status error_message (print (''chat: '' @ error_message) s))"

text \<open>
  The body runs under \<^verbatim>\<open>with self.send_lock\<close>: the lock is taken on entry and given
  back however the body ends. In one thread of control, taking a lock that is held never
  returns, which is the result \<open>None\<close>.
\<close>

definition send_to_assistant :: "nat \<Rightarrow> world \<Rightarrow> string \<Rightarrow> session \<Rightarrow> session option" where
  "send_to_assistant n w text s =
     (if send_lock s then None
      else
        map_option (\<lambda>s'. s'\<lparr>send_lock := False\<rparr>)
          (case check_connection w (s\<lparr>send_lock := True\<rparr>) of
             (False, s1) \<Rightarrow> Some (send_reply ''chat: failed to connect to Gemini API'' s1)
           | (True, s1) \<Rightarrow>
               (case chat_send_message w text (send_status ''Generating response...'' s1) of
                  (Inl e, s2) \<Rightarrow> Some (send_error e s2)
                | (Inr response, s2) \<Rightarrow>
                    (case handle_gemini_response n w response s2 of
                       None \<Rightarrow> None
                     | Some (Inl e, s3) \<Rightarrow> Some (send_error e s3)
                     | Some (Inr u, s3) \<Rightarrow> Some s3))))"

subsection \<open>\<^verbatim>\<open>check_wakeup_timers\<close>\<close>

text \<open>
  The loop \<^verbatim>\<open>for wakeup_timer in list(self.wakeup_schedule)\<close> over the snapshot taken at
  its start. \<^verbatim>\<open>list.remove\<close> deletes the first equal entry and raises \<^verbatim>\<open>ValueError\<close>
  when there is none.
\<close>

fun wakeup_loop ::
  "nat \<Rightarrow> world \<Rightarrow> real \<Rightarrow> wakeup_timer list \<Rightarrow> session \<Rightarrow> ((exn + unit) \<times> session) option"
where
  "wakeup_loop n w now [] s = Some (Inr (), s)"
| "wakeup_loop n w now (wakeup_timer # rest) s =
     (if now \<ge> timer_time wakeup_timer then
        (case send_to_assistant n w (''WAKEUP:'' @ timer_message wakeup_timer) s of
           None \<Rightarrow> None
         | Some s1 \<Rightarrow>
             (if wakeup_timer \<in> set (wakeup_schedule s1) then
                wakeup_loop n w now rest
                  (s1\<lparr>wakeup_schedule := remove1 wakeup_timer (wakeup_schedule s1)\<rparr>)
              else Some (Inl (Exn ''list.remove(x): x not in list''), s1)))
      else wakeup_loop n w now rest s)"

text \<open>
  One turn of \<^verbatim>\<open>while True\<close>, after \<^verbatim>\<open>time.sleep(1)\<close>; \<open>now\<close> is what \<^verbatim>\<open>time.time()\<close>
  returns in that turn.
\<close>

definition check_wakeup_timers_turn ::
  "nat \<Rightarrow> world \<Rightarrow> real \<Rightarrow> session \<Rightarrow> ((exn + unit) \<times> session) option" where
  "check_wakeup_timers_turn n w now s =
     (if length (wakeup_schedule s) = 0 then Some (Inr (), s)
      else wakeup_loop n w now (wakeup_schedule s) s)"

text \<open>
  \<^verbatim>\<open>check_wakeup_timers\<close> never leaves its loop; what can be observed of it is a run of
  turns, one for each reading of the clock in \<open>nows\<close>. An exception ends the thread.
\<close>

fun check_wakeup_timers ::
  "nat \<Rightarrow> world \<Rightarrow> real list \<Rightarrow> session \<Rightarrow> ((exn + unit) \<times> session) option" where
  "check_wakeup_timers n w [] s = Some (Inr (), s)"
| "check_wakeup_timers n w (now # nows) s =
     (case check_wakeup_timers_turn n w now s of
        None \<Rightarrow> None
      | Some (Inl e, s1) \<Rightarrow> Some (Inl e, s1)
      | Some (Inr u, s1) \<Rightarrow> check_wakeup_timers n w nows s1)"

section \<open>Stand-ins for the collaborators\<close>

text \<open>
  Concrete collaborators on which the functions above can be run. \<open>re_fragment\<close> covers a
  fragment of Python's \<^verbatim>\<open>re\<close> syntax: literal characters, \<^verbatim>\<open>.\<close> (any character but a
  newline) and \<^verbatim>\<open>*\<close> after one of these; \<^verbatim>\<open>pattern.match\<close> anchors the pattern at the
  start of the string only. A pattern outside the fragment is refused.
\<close>

datatype re_atom = Lit char | AnyChar

datatype re_item = Once re_atom | Star re_atom

fun re_parse :: "string \<Rightarrow> re_item list option" where
  "re_parse [] = Some []"
| "re_parse (c # cs) =
     (if c \<in> set (''^$*+?{}[]'' @ [CHR 0x5C] @ ''|()'') then None
      else
        (let a = (if c = CHR ''.'' then AnyChar else Lit c) in
         case cs of
           d # ds \<Rightarrow>
             (if d = CHR ''*'' then map_option ((#) (Star a)) (re_parse ds)
              else map_option ((#) (Once a)) (re_parse cs))
         | [] \<Rightarrow> Some [Once a]))"

fun atom_matches :: "re_atom \<Rightarrow> char \<Rightarrow> bool" where
  "atom_matches (Lit x) c = (c = x)"
| "atom_matches AnyChar c = (c \<noteq> CHR 0x0A)"

fun re_match :: "re_item list \<Rightarrow> string \<Rightarrow> bool" where
  "re_match [] string = True"
| "re_match (Once a # items) [] = False"
| "re_match (Once a # items) (c # cs) = (atom_matches a c \<and> re_match items cs)"
| "re_match (Star a # items) [] = re_match items []"
| "re_match (Star a # items) (c # cs) =
     ((atom_matches a c \<and> re_match (Star a # items) cs) \<or> re_match items (c # cs))"

definition re_fragment :: "string \<Rightarrow> exn + (string \<Rightarrow> bool)" where
  "re_fragment pattern =
     (case re_parse pattern of
        None \<Rightarrow> Inl (Exn ''pattern outside the fragment'')
      | Some items \<Rightarrow> Inr (re_match items))"

text \<open>\<^verbatim>\<open>json.dumps\<close> on strings that need no escape, \<^verbatim>\<open>json.loads\<close> on the empty object.\<close>

definition dumps_plain :: "pyval \<Rightarrow> exn + string" where
  "dumps_plain v =
     (case v of
        PStr x \<Rightarrow>
          (if list_all (\<lambda>c. CHR '' '' \<le> c \<and> c \<le> CHR ''~'' \<and> c \<noteq> CHR 0x22 \<and> c \<noteq> CHR 0x5C) x
           then Inr ([CHR 0x22] @ x @ [CHR 0x22])
           else Inl (Exn ''string needs an escape''))
      | _ \<Rightarrow> Inl (Exn ''value is not a string''))"

definition loads_empty :: "string \<Rightarrow> exn + pyval" where
  "loads_empty blob =
     (if blob = ''{}'' then Inr (PDict []) else Inl (Exn ''Expecting value''))"

text \<open>A model reply that carries one text part and no function call.\<close>

definition text_response :: "string \<Rightarrow> response" where
  "text_response t = Response [Candidate (Some [Part (Some t) None])]"

text \<open>A model reply that carries one function call and no text.\<close>

definition call_response :: "string \<Rightarrow> string \<Rightarrow> response" where
  "call_response func_name blob =
     Response [Candidate (Some [Part None (Some (FunctionCall (Some func_name) blob))])]"

text \<open>
  A reachable backend that answers every message with the text \<^verbatim>\<open>ok\<close>, and a vehicle
  with the three parameters of the example in the specification.
\<close>

definition quiet_world :: world where
  "quiet_world =
     \<lparr>genai_init = (\<lambda>tr. InitOk),
      generate_content = (\<lambda>tr. None),
      send_message = (\<lambda>tr. Inr (text_response ''ok'')),
      json_loads = loads_empty,
      json_dumps = dumps_plain,
      re_compile = re_fragment,
      strftime_now = (\<lambda>tr. ''Wednesday, November 04, 2026 12:00:00 PM''),
      get_heartbeat = (\<lambda>tr. Inr None),
      motors_armed = (\<lambda>tr. Inr 0),
      mav_param = (\<lambda>tr. [(''THR_MIN'', PInt 100), (''BATT_LOW_VOLT'', PFloat 10.5),
                          (''BATT_CAPACITY'', PInt 5000)]),
      process_stdin = (\<lambda>tr. None),
      param_set = (\<lambda>tr. None)\<rparr>"

text \<open>A fresh object with both callbacks installed and the given key.\<close>

definition new_session :: "string option \<Rightarrow> session" where
  "new_session key =
     \<lparr>api_key = key, model = False, chat = False, status_cb = True, reply_cb = True,
      send_lock = False, wakeup_schedule = [], events = []\<rparr>"

text \<open>A session whose model and chat have been set up.\<close>

definition chat_session :: session where
  "chat_session = (new_session (Some ''key''))\<lparr>model := True, chat := True\<rparr>"

text \<open>A session with three timers, the second of them not yet due at time 10.\<close>

definition timer_session :: session where
  "timer_session =
     chat_session\<lparr>wakeup_schedule :=
       [WakeupTimer 5 ''first'', WakeupTimer 20 ''later'', WakeupTimer 7 ''second'']\<rparr>"

section \<open>Notions used in the statements\<close>

text \<open>\<open>appends s s'\<close>: the session \<open>s'\<close> is \<open>s\<close> with more events at the end of its trace.\<close>

definition appends :: "session \<Rightarrow> session \<Rightarrow> bool" where
  "appends s s' \<longleftrightarrow> (\<exists>xs. s' = s\<lparr>events := events s @ xs\<rparr>)"

text \<open>The number of messages sent to the chat in a trace.\<close>

fun is_send :: "event \<Rightarrow> bool" where
  "is_send (SendMessage text) = True"
| "is_send e = False"

definition count_sends :: "event list \<Rightarrow> nat" where
  "count_sends tr = length (filter is_send tr)"





text \<open>
  A backend that follows a script: the message number \<open>i\<close> of the chat gets the entry
  number \<open>i\<close> of the script, and the connection is down once the script is used up.
\<close>

definition scripted_world :: "(exn + response) list \<Rightarrow> world" where
  "scripted_world script =
     quiet_world\<lparr>send_message :=
       (\<lambda>tr. case drop (count_sends tr - 1) script of
                [] \<Rightarrow> Inl (Exn ''network down'')
              | answer # rest \<Rightarrow> answer)\<rparr>"

text \<open>The last event of the trace is a call of the status or of the reply callback.\<close>

definition ends_in_emission :: "session \<Rightarrow> bool" where
  "ends_in_emission s \<longleftrightarrow>
     (\<exists>tr m. events s = tr @ [Status m] \<or> events s = tr @ [Reply m])"


text \<open>
  \<open>send_all\<close>: one call of \<^verbatim>\<open>send_to_assistant\<close> for each message of a list, in the order
  of the list.
\<close>

fun send_all :: "nat \<Rightarrow> world \<Rightarrow> string list \<Rightarrow> session \<Rightarrow> session option" where
  "send_all n w [] s = Some s"
| "send_all n w (text # rest) s =
     (case send_to_assistant n w text s of
        None \<Rightarrow> None
      | Some s1 \<Rightarrow> send_all n w rest s1)"

section \<open>Properties\<close>

subsection \<open>Facts about the stand-ins\<close>

lemma quiet_world_fields:
  "genai_init quiet_world tr = InitOk"
  "generate_content quiet_world tr = None"
  "send_message quiet_world tr = Inr (text_response ''ok'')"
  "json_loads quiet_world = loads_empty"
  "json_dumps quiet_world = dumps_plain"
  "re_compile quiet_world = re_fragment"
  "strftime_now quiet_world tr = ''Wednesday, November 04, 2026 12:00:00 PM''"
  "mav_param quiet_world tr =
     [(''THR_MIN'', PInt 100), (''BATT_LOW_VOLT'', PFloat 10.5), (''BATT_CAPACITY'', PInt 5000)]"
  by (simp_all add: quiet_world_def)


lemma chat_session_fields:
  "chat chat_session" "status_cb chat_session" "reply_cb chat_session"
  "\<not> send_lock chat_session" "events chat_session = []" "model chat_session"
  "api_key chat_session = Some ''key''" "wakeup_schedule chat_session = []"
  by (simp_all add: chat_session_def new_session_def)

subsection \<open>Parameter lookup\<close>

lemma dict_get_absent: "key \<notin> set (map fst d) \<Longrightarrow> dict_get d key = PNone"
  using map_of_eq_None_iff [of d key] by (simp add: dict_get_def)

text \<open>
  Claim C7. A lookup with an exact name, one without any regular-expression character,
  that the parameter store does not hold returns the string
  \<^verbatim>\<open>get_parameter: <name> parameter not found\<close>, which contains the requested name and the
  words "not found". The handler returns it as an ordinary result and raises nothing;
  the trace is left as it was.
\<close>

theorem get_parameter_not_found:
  assumes "dict_get arguments ''name'' = PStr param_name"
    and "\<not> contains_regex param_name"
    and "param_name \<notin> set (map fst (mav_param w (events s)))"
  shows "get_parameter w (PDict arguments) s =
           (Inr (PStr (''get_parameter: '' @ param_name @ '' parameter not found'')), s)"
  using assms
  by (simp add: get_parameter_def arguments_get_def get_mav_param_def dict_get_absent)

theorem get_parameter_not_found_witness:
  "dict_get [(''name'', PStr ''NOPE'')] ''name'' = PStr ''NOPE''
   \<and> \<not> contains_regex ''NOPE''
   \<and> ''NOPE'' \<notin> set (map fst (mav_param quiet_world (events (new_session None))))
   \<and> get_parameter quiet_world (PDict [(''name'', PStr ''NOPE'')]) (new_session None) =
       (Inr (PStr ''get_parameter: NOPE parameter not found''), new_session None)"
proof -
  have a: "dict_get [(''name'', PStr ''NOPE'')] ''name'' = PStr ''NOPE''"
    by (simp add: dict_get_def)
  have b: "\<not> contains_regex ''NOPE''"
    by (simp add: contains_regex_def regex_characters_def)
  have c: "''NOPE'' \<notin> set (map fst (mav_param quiet_world (events (new_session None))))"
    by (simp add: quiet_world_def)
  show ?thesis
    using a b c get_parameter_not_found [OF a b c] by simp
qed











subsection \<open>Sending without a credential\<close>

text \<open>
  Claim C8. When no API key is available (\<^verbatim>\<open>self.api_key\<close> is \<^verbatim>\<open>None\<close> or empty),
  \<^verbatim>\<open>send_to_assistant\<close> returns at once, whatever the fuel and whatever the backend would
  answer: the only effects are the console hint and the reply
  \<^verbatim>\<open>chat: failed to connect to Gemini API\<close> handed to the reply callback. The trace gains
  no \<open>InitializeModel\<close>, \<open>GenerateContent\<close> or \<open>SendMessage\<close> event, so neither the
  connectivity probe nor the chat message reaches the backend.
\<close>

theorem send_without_credential:
  assumes "api_key s = None \<or> api_key s = Some []"
    and "\<not> send_lock s"
  shows "send_to_assistant n w text s =
           Some (s\<lparr>events := events s
                   @ Print (''chat: Gemini API key not set. Use '' @ [CHR 0x27]
                            @ ''chat set_gemini_key YOUR_API_KEY'' @ [CHR 0x27])
                   # (if reply_cb s then [Reply ''chat: failed to connect to Gemini API'']
                      else [])\<rparr>)"
  using assms
  by (auto simp add: send_to_assistant_def check_connection_def print_def emit_def
      send_reply_def)

theorem send_without_credential_witness:
  "(api_key (new_session None) = None \<or> api_key (new_session None) = Some [])
   \<and> \<not> send_lock (new_session None)
   \<and> map_option events (send_to_assistant 0 quiet_world ''hello'' (new_session None)) =
       Some [Print (''chat: Gemini API key not set. Use '' @ [CHR 0x27]
                    @ ''chat set_gemini_key YOUR_API_KEY'' @ [CHR 0x27]),
             Reply ''chat: failed to connect to Gemini API'']"
proof -
  have a: "api_key (new_session None) = None \<or> api_key (new_session None) = Some []"
    by (simp add: new_session_def)
  have b: "\<not> send_lock (new_session None)"
    by (simp add: new_session_def)
  show ?thesis
    using a b send_without_credential [OF a b, of 0 quiet_world "''hello''"]
    by (simp add: new_session_def)
qed

subsection \<open>The trace only grows\<close>

text \<open>
  The equation of \<^verbatim>\<open>handle_function_call\<close> applies to every argument; it is unfolded by hand.
\<close>

declare handle_function_call.simps [simp del]

lemma appends_refl [simp]: "appends s s"
  by (auto simp add: appends_def intro: exI [of _ "[]"])

lemma appends_trans: "appends s s1 \<Longrightarrow> appends s1 s2 \<Longrightarrow> appends s s2"
  by (auto simp add: appends_def)

lemma appends_emit [simp]: "appends s (emit e s)"
  by (auto simp add: appends_def emit_def)

lemma appends_print [simp]: "appends s (print text s)"
  by (simp add: print_def)

lemma appends_send_status [simp]: "appends s (send_status text s)"
  by (simp add: send_status_def)

lemma appends_send_reply [simp]: "appends s (send_reply text s)"
  by (simp add: send_reply_def)

lemma appends_then_print: "appends s s1 \<Longrightarrow> appends s (print text s1)"
  by (rule appends_trans [OF _ appends_print])

lemma appends_then_emit: "appends s s1 \<Longrightarrow> appends s (emit e s1)"
  by (rule appends_trans [OF _ appends_emit])

lemma appends_then_status: "appends s s1 \<Longrightarrow> appends s (send_status text s1)"
  by (rule appends_trans [OF _ appends_send_status])

lemma appends_then_reply: "appends s s1 \<Longrightarrow> appends s (send_reply text s1)"
  by (rule appends_trans [OF _ appends_send_reply])

lemmas appends_then = appends_then_print appends_then_emit appends_then_status appends_then_reply

lemma get_parameter_loop_appends:
  "get_parameter_loop pattern store ks (pl, s1) = (pl', s') \<Longrightarrow> appends s s1 \<Longrightarrow> appends s s'"
proof (induction ks arbitrary: pl s1)
  case Nil
  then show ?case by simp
next
  case (Cons k ks)
  show ?case
  proof (cases "pattern k")
    case False
    with Cons.prems Cons.IH [of pl s1] show ?thesis by simp
  next
    case True
    show ?thesis
    proof (cases "get_mav_param store k = PNone")
      case True
      with \<open>pattern k\<close> Cons.prems
      have "get_parameter_loop pattern store ks
              (pl, print (''chat: get_parameter unable to get '' @ k) s1) = (pl', s')"
        by simp
      from Cons.IH [OF this appends_then_print [OF Cons.prems(2)]] show ?thesis .
    next
      case False
      with \<open>pattern k\<close> Cons.prems
      have "get_parameter_loop pattern store ks
              (dict_set pl k (get_mav_param store k), s1) = (pl', s')"
        by (simp split: pyval.splits)
      then show ?thesis
        using Cons.prems(2) by (rule Cons.IH)
    qed
  qed
qed

lemma get_parameter_appends: "get_parameter w arguments s = (r, s') \<Longrightarrow> appends s s'"
proof -
  assume a: "get_parameter w arguments s = (r, s')"
  show ?thesis
  proof (cases "\<exists>param_name pattern. arguments_get arguments ''name'' = Inr (PStr param_name)
                  \<and> contains_regex param_name \<and> re_compile w param_name = Inr pattern")
    case True
    then obtain param_name pattern where
      h: "arguments_get arguments ''name'' = Inr (PStr param_name)"
         "contains_regex param_name" "re_compile w param_name = Inr pattern"
      by blast
    obtain pl sx where
      l: "get_parameter_loop pattern (mav_param w (events s))
            (sort (map fst (mav_param w (events s)))) ([], s) = (pl, sx)"
      by (cases "get_parameter_loop pattern (mav_param w (events s))
            (sort (map fst (mav_param w (events s)))) ([], s)")
    from a h l have "s' = sx"
      by (simp add: get_parameter_def)
    with get_parameter_loop_appends [OF l appends_refl] show ?thesis by simp
  next
    case False
    with a have "s' = s"
      by (auto simp add: get_parameter_def Let_def split: sum.splits pyval.splits if_splits)
    then show ?thesis by simp
  qed
qed

lemma get_current_datetime_appends:
  "get_current_datetime w arguments s = (r, s') \<Longrightarrow> appends s s'"
  by (auto simp add: get_current_datetime_def)

lemma get_vehicle_type_appends: "get_vehicle_type w arguments s = (r, s') \<Longrightarrow> appends s s'"
  by (auto simp add: get_vehicle_type_def split: sum.splits)

lemma get_vehicle_state_appends: "get_vehicle_state w arguments s = (r, s') \<Longrightarrow> appends s s'"
  by (auto simp add: get_vehicle_state_def split: sum.splits option.splits)

lemma set_parameter_appends: "set_parameter w arguments s = (r, s') \<Longrightarrow> appends s s'"
  by (auto simp add: set_parameter_def Let_def split: sum.splits pyval.splits option.splits)

lemma set_vehicle_mode_appends: "set_vehicle_mode w arguments s = (r, s') \<Longrightarrow> appends s s'"
  by (auto simp add: set_vehicle_mode_def Let_def split: sum.splits pyval.splits option.splits)

lemmas handler_appends =
  get_parameter_appends get_current_datetime_appends get_vehicle_type_appends
  get_vehicle_state_appends set_parameter_appends set_vehicle_mode_appends

lemma getattr_self_appends:
  "getattr_self func_name = Some func \<Longrightarrow> func w arguments s = (r, s') \<Longrightarrow> appends s s'"
  by (auto simp add: getattr_self_def split: if_splits dest: handler_appends)

lemma call_function_appends:
  "call_function w func_name arguments s = (output, s') \<Longrightarrow> appends s s'"
proof (cases "if func_name \<in> set supported_funcs then getattr_self func_name else None")
  case None
  assume "call_function w func_name arguments s = (output, s')"
  with None show ?thesis by (auto simp add: call_function_def)
next
  case (Some func)
  assume a: "call_function w func_name arguments s = (output, s')"
  from Some have g: "getattr_self func_name = Some func"
    by (simp split: if_splits)
  obtain r s1 where f: "func w arguments s = (r, s1)"
    by (cases "func w arguments s")
  from getattr_self_appends [OF g f] have "appends s s1" .
  with a Some f show ?thesis
    by (auto simp add: call_function_def Let_def split: sum.splits intro: appends_then)
qed

lemma chat_send_message_appends:
  "chat_send_message w text s = (r, s') \<Longrightarrow> appends s s'"
  by (auto simp add: chat_send_message_def Let_def split: if_splits)

lemma handle_appends:
  "handle_gemini_response n w r s = Some (res, s') \<Longrightarrow> appends s s'"
  "handle_candidates n w cs s = Some s' \<Longrightarrow> appends s s'"
  "handle_parts n w ps s = Some s' \<Longrightarrow> appends s s'"
  "handle_function_call n w fc s = Some s' \<Longrightarrow> appends s s'"
proof (induction n w r s and n w cs s and n w ps s and n w fc s
    arbitrary: res s' and s' and s' and s'
    rule: handle_gemini_response_handle_candidates_handle_parts_handle_function_call.induct)
  case (1 n w s)
  then show ?case by auto
next
  case (2 n w e s)
  then show ?case by auto
next
  case (3 n w candidates s)
  then show ?case
    by (auto split: if_splits option.splits intro: appends_then)
next
  case (4 n w s)
  then show ?case by auto
next
  case (5 n w c rest s)
  show ?case
  proof (cases "content c")
    case None
    with "5.prems" "5.IH"(1) show ?thesis by simp
  next
    case (Some parts)
    with "5.prems" obtain s1 where
      a: "handle_parts n w parts s = Some s1" and b: "handle_candidates n w rest s1 = Some s'"
      by (auto split: option.splits)
    from "5.IH"(2) [OF Some a] "5.IH"(3) [OF Some a b] show ?thesis
      by (rule appends_trans)
  qed
next
  case (6 n w s)
  then show ?case by auto
next
  case (7 n w p rest s)
  let ?s1 = "case part_text p of None \<Rightarrow> s
             | Some t \<Rightarrow> if t \<noteq> [] then send_reply t s else s"
  have s1: "appends s ?s1"
    by (simp split: option.splits)
  show ?case
  proof (cases "part_function_call p")
    case None
    with "7.prems" have "handle_parts n w rest ?s1 = Some s'" by simp
    from "7.IH"(1) [OF None this] s1 show ?thesis by (rule appends_trans [rotated])
  next
    case (Some fc)
    with "7.prems" obtain s2 where
      a: "handle_function_call n w fc ?s1 = Some s2" and b: "handle_parts n w rest s2 = Some s'"
      by (auto split: option.splits)
    from "7.IH"(2) [OF Some a] have "appends ?s1 s2" .
    moreover from "7.IH"(3) [OF Some a b] have "appends s2 s'" .
    ultimately show ?thesis using s1 by (blast intro: appends_trans)
  qed
next
  case (8 n w fc s)
  show ?case
  proof (cases "case fc_name fc of None \<Rightarrow> [] | Some func_name \<Rightarrow> func_name")
    case Nil
    with "8.prems" show ?thesis
      by (auto simp add: handle_function_call.simps)
  next
    case (Cons x xs)
    let ?f = "x # xs"
    let ?args = "case json_loads w (fc_args fc) of Inl e \<Rightarrow> PDict [] | Inr v \<Rightarrow> v"
    obtain outp s1 where
      c: "call_function w ?f ?args (print (''chat: Handling function call: '' @ ?f) s)
            = (outp, s1)"
      by (cases "call_function w ?f ?args (print (''chat: Handling function call: '' @ ?f) s)")
    from call_function_appends [OF c] have a1: "appends s s1"
      by (blast intro: appends_trans appends_print)
    show ?thesis
    proof (cases "json_dumps w outp")
      case (Inl e)
      with "8.prems" Cons c a1 show ?thesis
        by (auto simp add: handle_function_call.simps intro: appends_then)
    next
      case (Inr result_json)
      obtain r s2 where
        m: "chat_send_message w (''Function result for '' @ ?f @ '': '' @ result_json) s1
              = (r, s2)"
        by (cases "chat_send_message w
                     (''Function result for '' @ ?f @ '': '' @ result_json) s1")
      from chat_send_message_appends [OF m] a1 have a2: "appends s s2"
        by (blast intro: appends_trans)
      show ?thesis
      proof (cases r)
        case (Inl e)
        with "8.prems" Cons c Inr m a2 show ?thesis
          by (auto simp add: handle_function_call.simps intro: appends_then)
      next
        case r: (Inr response)
        show ?thesis
        proof (cases n)
          case 0
          with "8.prems" Cons c Inr m r show ?thesis
            by (auto simp add: handle_function_call.simps)
        next
          case (Suc k)
          from "8.prems" Cons c Inr m r Suc obtain res s3 where
            h: "handle_gemini_response k w response s2 = Some (res, s3)"
            and s': "s' = (case res of Inl e \<Rightarrow>
                        print (''chat: Error sending function response: '' @ str_of e) s3
                      | Inr u \<Rightarrow> s3)"
            by (auto simp add: handle_function_call.simps split: option.splits sum.splits)
          have "appends s2 s3"
            using "8.IH" [OF Cons _ c [symmetric] Inr m [symmetric] r Suc h] by simp
          with a2 have "appends s s3" by (blast intro: appends_trans)
          then show ?thesis
            unfolding s' by (auto split: sum.splits intro: appends_then)
        qed
      qed
    qed
  qed
qed

subsection \<open>Dispatch\<close>

lemma registry_names:
  "map fst define_tools =
     [''get_current_datetime'', ''get_vehicle_type'', ''get_vehicle_state'',
      ''get_parameter'', ''set_parameter'', ''set_vehicle_mode'']"
  by (simp add: define_tools_def)

lemma supported_in_registry: "set supported_funcs \<subseteq> set (map fst define_tools)"
  unfolding registry_names by (simp add: supported_funcs_def)

lemma call_function_unsupported:
  "func_name \<notin> set supported_funcs \<Longrightarrow>
   call_function w func_name arguments s =
     (PStr (''Unrecognized function call: '' @ func_name),
      print (''chat: Unrecognized function name: '' @ func_name) s)"
  by (simp add: call_function_def)

text \<open>
  Each of the five names of \<^verbatim>\<open>supported_funcs\<close> reaches the handler that \<^verbatim>\<open>define_tools\<close>
  registers under it, and a fault of the handler becomes the string
  \<^verbatim>\<open><name>: function call failed - <message>\<close>.
\<close>

lemma registered_handler:
  assumes "func_name \<in> set supported_funcs"
  shows "getattr_self func_name \<noteq> None
         \<and> map_option tool_function (map_of define_tools func_name) = getattr_self func_name"
proof -
  from assms have "func_name = ''get_current_datetime'' \<or> func_name = ''get_vehicle_type''
    \<or> func_name = ''get_vehicle_state'' \<or> func_name = ''get_parameter''
    \<or> func_name = ''set_parameter''"
    by (simp add: supported_funcs_def)
  then show ?thesis
    by (elim disjE) (simp_all add: define_tools_def getattr_self_def)
qed

lemma call_function_supported:
  assumes "func_name \<in> set supported_funcs"
  shows "\<exists>func. map_option tool_function (map_of define_tools func_name) = Some func
             \<and> call_function w func_name arguments s =
                 (case func w arguments s of
                    (Inr outp, s1) \<Rightarrow> (outp, s1)
                  | (Inl e, s1) \<Rightarrow>
                      (PStr (func_name @ '': function call failed - '' @ str_of e),
                       print (''chat: '' @ func_name @ '': function call failed - ''
                              @ str_of e) s1))"
proof -
  from registered_handler [OF assms] obtain func where
    f: "getattr_self func_name = Some func"
       "map_option tool_function (map_of define_tools func_name) = Some func"
    by auto
  have "call_function w func_name arguments s =
          (case func w arguments s of
             (Inr outp, s1) \<Rightarrow> (outp, s1)
           | (Inl e, s1) \<Rightarrow>
               (PStr (func_name @ '': function call failed - '' @ str_of e),
                print (''chat: '' @ func_name @ '': function call failed - ''
                       @ str_of e) s1))"
    using assms f(1) by (simp add: call_function_def Let_def split: prod.splits sum.splits)
  with f(2) show ?thesis by blast
qed

text \<open>
  Claim C1. \<^verbatim>\<open>define_tools\<close> registers six tools, the sixth being \<^verbatim>\<open>set_vehicle_mode\<close> with
  the handler of that name. \<^verbatim>\<open>handle_function_call\<close> tests the name against
  \<^verbatim>\<open>supported_funcs\<close>, which lists only the other five, so for every world, arguments and
  session the registered handler of \<^verbatim>\<open>set_vehicle_mode\<close> is not invoked: the result is the
  string \<^verbatim>\<open>Unrecognized function call: set_vehicle_mode\<close>. The last part runs the directive
  \<^verbatim>\<open>set_vehicle_mode({"mode": "GUIDED"})\<close>: the trace holds no \<open>ProcessStdin\<close> event, and
  the rejection is what goes back to the backend.
\<close>

theorem set_vehicle_mode_rejected:
  "map_option tool_function (map_of define_tools ''set_vehicle_mode'') = Some set_vehicle_mode
   \<and> call_function w ''set_vehicle_mode'' arguments s =
       (PStr ''Unrecognized function call: set_vehicle_mode'',
        print ''chat: Unrecognized function name: set_vehicle_mode'' s)
   \<and> map_option events
        (handle_function_call (Suc 0)
           (quiet_world\<lparr>json_loads := (\<lambda>blob. Inr (PDict [(''mode'', PStr ''GUIDED'')]))\<rparr>)
           (FunctionCall (Some ''set_vehicle_mode'')
              (''{'' @ [CHR 0x22] @ ''mode'' @ [CHR 0x22] @ '': '' @ [CHR 0x22] @ ''GUIDED''
               @ [CHR 0x22] @ ''}''))
           chat_session) =
       Some [Print ''chat: Handling function call: set_vehicle_mode'',
             Print ''chat: Unrecognized function name: set_vehicle_mode'',
             SendMessage (''Function result for set_vehicle_mode: '' @ [CHR 0x22]
                          @ ''Unrecognized function call: set_vehicle_mode'' @ [CHR 0x22]),
             Reply ''ok'', Status ''Ready'']"
proof -
  have a: "map_option tool_function (map_of define_tools ''set_vehicle_mode'')
             = Some set_vehicle_mode"
    by (simp add: define_tools_def)
  have b: "call_function w ''set_vehicle_mode'' arguments s =
       (PStr ''Unrecognized function call: set_vehicle_mode'',
        print ''chat: Unrecognized function name: set_vehicle_mode'' s)" for w arguments s
    by (simp add: call_function_def supported_funcs_def)
  show ?thesis
    using a
    by (simp add: b handle_function_call.simps chat_send_message_def quiet_world_def
        dumps_plain_def text_response_def chat_session_fields print_def emit_def
        send_reply_def send_status_def)
qed

text \<open>
  Claim C6. A directive whose name is not empty and not in the registry is not dispatched
  to any handler: the result is the string \<^verbatim>\<open>Unrecognized function call: <name>\<close>. Nothing
  is raised. The string, serialised by \<^verbatim>\<open>json.dumps\<close>, is sent to the chat as the message
  \<^verbatim>\<open>Function result for <name>: <json>\<close>, and the answer of the backend to that message is
  handled as the next response, so the conversation goes on.
\<close>

theorem unknown_tool:
  assumes "fc_name fc = Some func_name"
    and "func_name \<noteq> []"
    and "func_name \<notin> set (map fst define_tools)"
    and "chat s"
    and "json_dumps w (PStr (''Unrecognized function call: '' @ func_name)) = Inr result_json"
  shows "call_function w func_name arguments s =
           (PStr (''Unrecognized function call: '' @ func_name),
            print (''chat: Unrecognized function name: '' @ func_name) s)
         \<and> handle_function_call (Suc n) w fc s =
           (case chat_send_message w
                   (''Function result for '' @ func_name @ '': '' @ result_json)
                   (print (''chat: Unrecognized function name: '' @ func_name)
                      (print (''chat: Handling function call: '' @ func_name) s)) of
              (Inl e, s2) \<Rightarrow>
                Some (print (''chat: Error sending function response: '' @ str_of e) s2)
            | (Inr response, s2) \<Rightarrow>
                (case handle_gemini_response n w response s2 of
                   None \<Rightarrow> None
                 | Some (Inl e, s3) \<Rightarrow>
                     Some (print (''chat: Error sending function response: '' @ str_of e) s3)
                 | Some (Inr u, s3) \<Rightarrow> Some s3))"
proof -
  from assms(3) supported_in_registry have u: "func_name \<notin> set supported_funcs"
    by blast
  obtain x xs where f: "func_name = x # xs"
    using assms(2) by (cases func_name) auto
  show ?thesis
    using assms(1,5) u f
    by (simp add: handle_function_call.simps call_function_unsupported
        split: prod.splits sum.splits)
qed

theorem unknown_tool_witness:
  "fc_name (FunctionCall (Some ''nonexistent'') ''{}'') = Some ''nonexistent''
   \<and> ''nonexistent'' \<noteq> []
   \<and> ''nonexistent'' \<notin> set (map fst define_tools)
   \<and> chat chat_session
   \<and> json_dumps quiet_world (PStr (''Unrecognized function call: '' @ ''nonexistent'')) =
       Inr ([CHR 0x22] @ ''Unrecognized function call: nonexistent'' @ [CHR 0x22])
   \<and> map_option events
        (handle_function_call (Suc 0) quiet_world (FunctionCall (Some ''nonexistent'') ''{}'')
           chat_session) =
       Some [Print ''chat: Handling function call: nonexistent'',
             Print ''chat: Unrecognized function name: nonexistent'',
             SendMessage (''Function result for nonexistent: '' @ [CHR 0x22]
                          @ ''Unrecognized function call: nonexistent'' @ [CHR 0x22]),
             Reply ''ok'', Status ''Ready'']"
proof -
  have a: "fc_name (FunctionCall (Some ''nonexistent'') ''{}'') = Some ''nonexistent''"
    by simp
  have b: "''nonexistent'' \<noteq> []"
    by simp
  have c: "''nonexistent'' \<notin> set (map fst define_tools)"
    unfolding registry_names by simp
  have d: "chat chat_session"
    by (rule chat_session_fields)
  have e: "json_dumps quiet_world (PStr (''Unrecognized function call: '' @ ''nonexistent'')) =
       Inr ([CHR 0x22] @ ''Unrecognized function call: nonexistent'' @ [CHR 0x22])"
    by (simp add: quiet_world_fields dumps_plain_def)
  show ?thesis
    using a b c d e unknown_tool [OF a b c d e, of "PDict []" 0]
    by (simp add: chat_send_message_def quiet_world_fields text_response_def
        chat_session_fields print_def emit_def send_reply_def send_status_def)
qed

text \<open>
  Claim C10. For a directive whose name is missing or empty, \<^verbatim>\<open>handle_function_call\<close>
  prints one line and returns: no handler runs and no message is sent to the backend,
  whatever the fuel. And a directive whose argument blob \<^verbatim>\<open>json.loads\<close> rejects is handled
  exactly as the same directive with a blob that parses to the empty dict: the failure
  of the parser is not raised, the arguments are \<^verbatim>\<open>{}\<close>.
\<close>

theorem empty_function_name:
  "(fc_name fc = None \<or> fc_name fc = Some [] \<longrightarrow>
      handle_function_call n w fc s = Some (print ''chat: Empty function name received'' s))
   \<and> (json_loads w (fc_args fc) = Inl e \<and> json_loads w blob = Inr (PDict []) \<longrightarrow>
      handle_function_call n w fc s =
        handle_function_call n w (FunctionCall (fc_name fc) blob) s)"
  by (auto simp add: handle_function_call.simps split: list.splits)

theorem empty_function_name_witness:
  "fc_name (FunctionCall (Some []) ''{}'') = Some []
   \<and> map_option events
        (handle_function_call 0 quiet_world (FunctionCall (Some []) ''{}'')
           ((new_session (Some ''key''))\<lparr>chat := True\<rparr>)) =
       Some [Print ''chat: Empty function name received'']
   \<and> json_loads quiet_world (fc_args (FunctionCall (Some ''get_parameter'') ''name=X'')) =
       Inl (Exn ''Expecting value'')
   \<and> json_loads quiet_world ''{}'' = Inr (PDict [])
   \<and> handle_function_call 1 quiet_world (FunctionCall (Some ''get_parameter'') ''name=X'')
        ((new_session (Some ''key''))\<lparr>chat := True\<rparr>) =
       handle_function_call 1 quiet_world (FunctionCall (Some ''get_parameter'') ''{}'')
        ((new_session (Some ''key''))\<lparr>chat := True\<rparr>)"
  using empty_function_name [of "FunctionCall (Some [])  ''{}''" 0 quiet_world
      "(new_session (Some ''key''))\<lparr>chat := True\<rparr>" "Exn ''Expecting value''" "''{}''"]
    empty_function_name [of "FunctionCall (Some ''get_parameter'') ''name=X''" 1 quiet_world
      "(new_session (Some ''key''))\<lparr>chat := True\<rparr>" "Exn ''Expecting value''" "''{}''"]
  by (simp add: quiet_world_def loads_empty_def new_session_def print_def emit_def)

subsection \<open>Termination of the response loop\<close>


lemma appends_chat: "appends s s' \<Longrightarrow> chat s' = chat s"
  by (auto simp add: appends_def)



lemma count_sends_print [simp]: "count_sends (events (print text s)) = count_sends (events s)"
  by (simp add: print_def emit_def count_sends_def)

lemma count_sends_send_reply [simp]:
  "count_sends (events (send_reply text s)) = count_sends (events s)"
  by (simp add: send_reply_def emit_def count_sends_def)

lemma count_sends_send_status [simp]:
  "count_sends (events (send_status text s)) = count_sends (events s)"
  by (simp add: send_status_def emit_def count_sends_def)





lemma chat_print [simp]: "chat (print text s) = chat s"
  by (simp add: print_def emit_def)





subsection \<open>The wakeup poller\<close>

text \<open>
  No function of the session reads \<^verbatim>\<open>wakeup_schedule\<close>: each one commutes with an update
  of that field, and \<^verbatim>\<open>send_to_assistant\<close> leaves the schedule as it is.
\<close>

lemma frame_emit: "emit e (s\<lparr>wakeup_schedule := x\<rparr>) = (emit e s)\<lparr>wakeup_schedule := x\<rparr>"
  by (simp add: emit_def)

lemma frame_print: "print text (s\<lparr>wakeup_schedule := x\<rparr>) = (print text s)\<lparr>wakeup_schedule := x\<rparr>"
  by (simp add: print_def frame_emit)

lemma frame_send_status:
  "send_status text (s\<lparr>wakeup_schedule := x\<rparr>) = (send_status text s)\<lparr>wakeup_schedule := x\<rparr>"
  by (simp add: send_status_def frame_emit)

lemma frame_send_reply:
  "send_reply text (s\<lparr>wakeup_schedule := x\<rparr>) = (send_reply text s)\<lparr>wakeup_schedule := x\<rparr>"
  by (simp add: send_reply_def frame_emit)

lemmas frame_out = frame_emit frame_print frame_send_status frame_send_reply

lemma frame_get_parameter_loop:
  "get_parameter_loop pattern store ks (acc, s\<lparr>wakeup_schedule := x\<rparr>) =
     apsnd (\<lambda>s'. s'\<lparr>wakeup_schedule := x\<rparr>) (get_parameter_loop pattern store ks (acc, s))"
proof (induction ks arbitrary: acc s)
  case Nil
  then show ?case by simp
next
  case (Cons k ks)
  show ?case
  proof (cases "pattern k")
    case False
    with Cons.IH [of acc s] show ?thesis by simp
  next
    case True
    show ?thesis
    proof (cases "get_mav_param store k = PNone")
      case True
      with \<open>pattern k\<close>
        Cons.IH [of acc "print (''chat: get_parameter unable to get '' @ k) s"]
      show ?thesis by (simp add: frame_print)
    next
      case False
      with \<open>pattern k\<close> Cons.IH [of "dict_set acc k (get_mav_param store k)" s]
      show ?thesis by (cases "get_mav_param store k") simp_all
    qed
  qed
qed

lemma frame_get_parameter:
  "get_parameter w arguments (s\<lparr>wakeup_schedule := x\<rparr>) =
     apsnd (\<lambda>s'. s'\<lparr>wakeup_schedule := x\<rparr>) (get_parameter w arguments s)"
  by (simp add: get_parameter_def Let_def frame_get_parameter_loop
      split: sum.splits pyval.splits prod.splits)

lemma frame_get_current_datetime:
  "get_current_datetime w arguments (s\<lparr>wakeup_schedule := x\<rparr>) =
     apsnd (\<lambda>s'. s'\<lparr>wakeup_schedule := x\<rparr>) (get_current_datetime w arguments s)"
  by (simp add: get_current_datetime_def)

lemma frame_get_vehicle_type:
  "get_vehicle_type w arguments (s\<lparr>wakeup_schedule := x\<rparr>) =
     apsnd (\<lambda>s'. s'\<lparr>wakeup_schedule := x\<rparr>) (get_vehicle_type w arguments s)"
  by (simp add: get_vehicle_type_def split: sum.splits)

lemma frame_get_vehicle_state:
  "get_vehicle_state w arguments (s\<lparr>wakeup_schedule := x\<rparr>) =
     apsnd (\<lambda>s'. s'\<lparr>wakeup_schedule := x\<rparr>) (get_vehicle_state w arguments s)"
  by (simp add: get_vehicle_state_def frame_print print_def emit_def
      split: sum.splits option.splits)

lemma frame_set_parameter:
  "set_parameter w arguments (s\<lparr>wakeup_schedule := x\<rparr>) =
     apsnd (\<lambda>s'. s'\<lparr>wakeup_schedule := x\<rparr>) (set_parameter w arguments s)"
  by (simp add: set_parameter_def Let_def emit_def
      split: sum.splits pyval.splits option.splits)

lemma frame_set_vehicle_mode:
  "set_vehicle_mode w arguments (s\<lparr>wakeup_schedule := x\<rparr>) =
     apsnd (\<lambda>s'. s'\<lparr>wakeup_schedule := x\<rparr>) (set_vehicle_mode w arguments s)"
  by (simp add: set_vehicle_mode_def Let_def emit_def
      split: sum.splits pyval.splits option.splits)

lemmas frame_handlers =
  frame_get_parameter frame_get_current_datetime frame_get_vehicle_type
  frame_get_vehicle_state frame_set_parameter frame_set_vehicle_mode

lemma frame_getattr_self:
  "getattr_self func_name = Some func \<Longrightarrow>
   func w arguments (s\<lparr>wakeup_schedule := x\<rparr>) =
     apsnd (\<lambda>s'. s'\<lparr>wakeup_schedule := x\<rparr>) (func w arguments s)"
  by (auto simp add: getattr_self_def frame_handlers split: if_splits)

lemma frame_call_function:
  "call_function w func_name arguments (s\<lparr>wakeup_schedule := x\<rparr>) =
     apsnd (\<lambda>s'. s'\<lparr>wakeup_schedule := x\<rparr>) (call_function w func_name arguments s)"
proof (cases "if func_name \<in> set supported_funcs then getattr_self func_name else None")
  case None
  then show ?thesis by (simp add: call_function_def frame_print)
next
  case (Some func)
  then have g: "getattr_self func_name = Some func"
    by (simp split: if_splits)
  show ?thesis
    using Some
    by (simp add: call_function_def Let_def frame_print frame_getattr_self [OF g]
        split: prod.splits sum.splits)
qed

lemma frame_chat_send_message:
  "chat_send_message w text (s\<lparr>wakeup_schedule := x\<rparr>) =
     apsnd (\<lambda>s'. s'\<lparr>wakeup_schedule := x\<rparr>) (chat_send_message w text s)"
  by (simp add: chat_send_message_def Let_def emit_def)

lemma frame_initialize_model:
  "initialize_model w (s\<lparr>wakeup_schedule := x\<rparr>) =
     apsnd (\<lambda>s'. s'\<lparr>wakeup_schedule := x\<rparr>) (initialize_model w s)"
  by (simp add: initialize_model_def Let_def emit_def print_def split: init_outcome.splits)

lemma frame_check_connection:
  "check_connection w (s\<lparr>wakeup_schedule := x\<rparr>) =
     apsnd (\<lambda>s'. s'\<lparr>wakeup_schedule := x\<rparr>) (check_connection w s)"
  by (simp add: check_connection_def Let_def frame_initialize_model frame_print emit_def
      print_def split: prod.splits bool.splits option.splits)

lemma frame_send_error:
  "send_error e (s\<lparr>wakeup_schedule := x\<rparr>) = (send_error e s)\<lparr>wakeup_schedule := x\<rparr>"
  by (simp add: send_error_def Let_def frame_out)

lemma frame_handle:
  "handle_gemini_response n w r (s\<lparr>wakeup_schedule := x\<rparr>) =
     map_option (apsnd (\<lambda>s'. s'\<lparr>wakeup_schedule := x\<rparr>)) (handle_gemini_response n w r s)"
  "handle_candidates n w cs (s\<lparr>wakeup_schedule := x\<rparr>) =
     map_option (\<lambda>s'. s'\<lparr>wakeup_schedule := x\<rparr>) (handle_candidates n w cs s)"
  "handle_parts n w ps (s\<lparr>wakeup_schedule := x\<rparr>) =
     map_option (\<lambda>s'. s'\<lparr>wakeup_schedule := x\<rparr>) (handle_parts n w ps s)"
  "handle_function_call n w fc (s\<lparr>wakeup_schedule := x\<rparr>) =
     map_option (\<lambda>s'. s'\<lparr>wakeup_schedule := x\<rparr>) (handle_function_call n w fc s)"
proof (induction n w r s and n w cs s and n w ps s and n w fc s
    rule: handle_gemini_response_handle_candidates_handle_parts_handle_function_call.induct)
  case (1 n w s)
  then show ?case by (simp add: frame_out)
next
  case (2 n w e s)
  then show ?case by simp
next
  case (3 n w candidates s)
  then show ?case
    by (cases "candidates = []") (simp_all add: frame_out split: option.splits)
next
  case (4 n w s)
  then show ?case by simp
next
  case (5 n w c rest s)
  show ?case
  proof (cases "content c")
    case None
    with "5.IH"(1) show ?thesis by simp
  next
    case (Some parts)
    show ?thesis
    proof (cases "handle_parts n w parts s")
      case None
      with Some "5.IH"(2) [OF Some] show ?thesis by simp
    next
      case s1: (Some s1)
      with Some "5.IH"(2) [OF Some] "5.IH"(3) [OF Some s1] show ?thesis by simp
    qed
  qed
next
  case (6 n w s)
  then show ?case by simp
next
  case (7 n w p rest s)
  let ?s1 = "case part_text p of None \<Rightarrow> s
             | Some t \<Rightarrow> if t \<noteq> [] then send_reply t s else s"
  have s1: "(case part_text p of None \<Rightarrow> s\<lparr>wakeup_schedule := x\<rparr>
             | Some t \<Rightarrow> if t \<noteq> [] then send_reply t (s\<lparr>wakeup_schedule := x\<rparr>)
                         else s\<lparr>wakeup_schedule := x\<rparr>) = ?s1\<lparr>wakeup_schedule := x\<rparr>"
    by (simp add: frame_out split: option.splits)
  show ?case
  proof (cases "part_function_call p")
    case None
    with "7.IH"(1) [OF None] show ?thesis
      unfolding handle_parts.simps s1 by simp
  next
    case (Some fc)
    show ?thesis
    proof (cases "handle_function_call n w fc ?s1")
      case None
      with Some "7.IH"(2) [OF Some] show ?thesis
        unfolding handle_parts.simps s1 by simp
    next
      case s2: (Some s2)
      with Some "7.IH"(2) [OF Some] "7.IH"(3) [OF Some s2] show ?thesis
        unfolding handle_parts.simps s1 by simp
    qed
  qed
next
  case (8 n w fc s)
  show ?case
  proof (cases "case fc_name fc of None \<Rightarrow> [] | Some func_name \<Rightarrow> func_name")
    case Nil
    then show ?thesis
      by (simp add: handle_function_call.simps frame_out)
  next
    case (Cons c cs)
    let ?f = "c # cs"
    let ?args = "case json_loads w (fc_args fc) of Inl e \<Rightarrow> PDict [] | Inr v \<Rightarrow> v"
    obtain outp s1 where
      c: "call_function w ?f ?args (print (''chat: Handling function call: '' @ ?f) s)
            = (outp, s1)"
      by (cases "call_function w ?f ?args (print (''chat: Handling function call: '' @ ?f) s)")
    then have c': "call_function w ?f ?args
                     (print (''chat: Handling function call: '' @ ?f) (s\<lparr>wakeup_schedule := x\<rparr>))
                   = (outp, s1\<lparr>wakeup_schedule := x\<rparr>)"
      by (simp add: frame_print frame_call_function)
    show ?thesis
    proof (cases "json_dumps w outp")
      case (Inl e)
      with Cons c c' show ?thesis
        by (simp add: handle_function_call.simps frame_out)
    next
      case (Inr result_json)
      obtain r s2 where
        m: "chat_send_message w (''Function result for '' @ ?f @ '': '' @ result_json) s1
              = (r, s2)"
        by (cases "chat_send_message w
                     (''Function result for '' @ ?f @ '': '' @ result_json) s1")
      then have m': "chat_send_message w (''Function result for '' @ ?f @ '': '' @ result_json)
                       (s1\<lparr>wakeup_schedule := x\<rparr>) = (r, s2\<lparr>wakeup_schedule := x\<rparr>)"
        by (simp add: frame_chat_send_message)
      show ?thesis
      proof (cases r)
        case (Inl e)
        with Cons c c' Inr m m' show ?thesis
          by (simp add: handle_function_call.simps frame_out)
      next
        case r: (Inr response)
        show ?thesis
        proof (cases n)
          case 0
          with Cons c c' Inr m m' r show ?thesis
            by (simp add: handle_function_call.simps)
        next
          case (Suc j)
          from "8.IH" [OF Cons _ c [symmetric] Inr m [symmetric] r Suc]
          have "handle_gemini_response j w response (s2\<lparr>wakeup_schedule := x\<rparr>) =
                  map_option (apsnd (\<lambda>s'. s'\<lparr>wakeup_schedule := x\<rparr>))
                    (handle_gemini_response j w response s2)"
            by simp
          with Cons c c' Inr m m' r Suc show ?thesis
            by (simp add: handle_function_call.simps frame_out
                split: option.splits sum.splits prod.splits)
        qed
      qed
    qed
  qed
qed

lemma frame_send_to_assistant:
  "send_to_assistant n w text (s\<lparr>wakeup_schedule := x\<rparr>) =
     map_option (\<lambda>s'. s'\<lparr>wakeup_schedule := x\<rparr>) (send_to_assistant n w text s)"
proof (cases "send_lock s")
  case True
  then show ?thesis by (simp add: send_to_assistant_def)
next
  case False
  have l: "s\<lparr>wakeup_schedule := x, send_lock := True\<rparr> = s\<lparr>send_lock := True, wakeup_schedule := x\<rparr>"
    by simp
  obtain ok s1 where cc: "check_connection w (s\<lparr>send_lock := True\<rparr>) = (ok, s1)"
    by (cases "check_connection w (s\<lparr>send_lock := True\<rparr>)")
  then have cc': "check_connection w (s\<lparr>wakeup_schedule := x, send_lock := True\<rparr>)
                    = (ok, s1\<lparr>wakeup_schedule := x\<rparr>)"
    unfolding l by (simp add: frame_check_connection)
  show ?thesis
  proof (cases ok)
    case False
    with \<open>\<not> send_lock s\<close> cc cc' show ?thesis
      by (simp add: send_to_assistant_def frame_out)
  next
    case True
    obtain r s2 where
      m: "chat_send_message w text (send_status ''Generating response...'' s1) = (r, s2)"
      by (cases "chat_send_message w text (send_status ''Generating response...'' s1)")
    then have m': "chat_send_message w text
                     (send_status ''Generating response...'' (s1\<lparr>wakeup_schedule := x\<rparr>))
                   = (r, s2\<lparr>wakeup_schedule := x\<rparr>)"
      by (simp add: frame_out frame_chat_send_message)
    show ?thesis
      using \<open>\<not> send_lock s\<close> cc cc' True m m'
      by (simp add: send_to_assistant_def frame_send_error frame_handle(1)
          split: sum.splits option.splits prod.splits)
  qed
qed

lemma send_to_assistant_schedule:
  assumes "send_to_assistant n w msg s = Some s'"
  shows "wakeup_schedule s' = wakeup_schedule s"
proof -
  have "send_to_assistant n w msg (s\<lparr>wakeup_schedule := wakeup_schedule s\<rparr>) =
          map_option (\<lambda>s'. s'\<lparr>wakeup_schedule := wakeup_schedule s\<rparr>)
            (send_to_assistant n w msg s)"
    by (rule frame_send_to_assistant)
  moreover have "s\<lparr>wakeup_schedule := wakeup_schedule s\<rparr> = s"
    by simp
  ultimately have "Some s' = Some (s'\<lparr>wakeup_schedule := wakeup_schedule s\<rparr>)"
    unfolding assms by (simp only: assms option.map)
  then have "wakeup_schedule s' = wakeup_schedule (s'\<lparr>wakeup_schedule := wakeup_schedule s\<rparr>)"
    by simp
  then show ?thesis by simp
qed

lemma frame_send_all:
  "send_all n w texts (s\<lparr>wakeup_schedule := x\<rparr>) =
     map_option (\<lambda>s'. s'\<lparr>wakeup_schedule := x\<rparr>) (send_all n w texts s)"
proof (induction texts arbitrary: s)
  case Nil
  then show ?case by simp
next
  case (Cons msg texts)
  then show ?case
    by (simp add: frame_send_to_assistant split: option.splits)
qed

lemma wakeup_loop_sends:
  assumes "wakeup_schedule s = pre @ ts"
    and "\<forall>t \<in> set pre. \<not> timer_time t \<le> now"
  shows "wakeup_loop n w now ts s =
           map_option
             (\<lambda>s'. (Inr (), s'\<lparr>wakeup_schedule := pre @ filter (\<lambda>t. \<not> timer_time t \<le> now) ts\<rparr>))
             (send_all n w
                (map (\<lambda>t. ''WAKEUP:'' @ timer_message t) (filter (\<lambda>t. timer_time t \<le> now) ts)) s)"
  using assms
proof (induction ts arbitrary: s pre)
  case Nil
  then have "s\<lparr>wakeup_schedule := pre\<rparr> = s" by simp
  then show ?case by simp
next
  case (Cons t ts)
  show ?case
  proof (cases "timer_time t \<le> now")
    case False
    from Cons.prems False have "wakeup_schedule s = (pre @ [t]) @ ts"
      and "\<forall>u \<in> set (pre @ [t]). \<not> timer_time u \<le> now"
      by simp_all
    from Cons.IH [OF this] False show ?thesis by simp
  next
    case True
    let ?msg = "''WAKEUP:'' @ timer_message t"
    show ?thesis
    proof (cases "send_to_assistant n w ?msg s")
      case None
      with True show ?thesis by simp
    next
      case (Some s1)
      from send_to_assistant_schedule [OF Some] Cons.prems(1)
      have sched: "wakeup_schedule s1 = pre @ t # ts" by simp
      from True Cons.prems(2) have "t \<notin> set pre" by auto
      with sched have rm: "remove1 t (wakeup_schedule s1) = pre @ ts"
        by (simp add: remove1_append)
      let ?s1 = "s1\<lparr>wakeup_schedule := pre @ ts\<rparr>"
      have "wakeup_schedule ?s1 = pre @ ts" by simp
      from Cons.IH [OF this Cons.prems(2)]
      have "wakeup_loop n w now ts ?s1 =
              map_option
                (\<lambda>s'. (Inr (), s'\<lparr>wakeup_schedule := pre @ filter (\<lambda>t. \<not> timer_time t \<le> now) ts\<rparr>))
                (send_all n w
                   (map (\<lambda>t. ''WAKEUP:'' @ timer_message t)
                      (filter (\<lambda>t. timer_time t \<le> now) ts)) s1)"
        by (simp add: frame_send_all option.map_comp comp_def)
      with True Some sched rm show ?thesis by simp
    qed
  qed
qed

lemma timer_session_fields:
  "chat timer_session" "status_cb timer_session" "reply_cb timer_session"
  "\<not> send_lock timer_session" "events timer_session = []" "model timer_session"
  "api_key timer_session = Some ''key''"
  "wakeup_schedule timer_session =
     [WakeupTimer 5 ''first'', WakeupTimer 20 ''later'', WakeupTimer 7 ''second'']"
  by (simp_all add: timer_session_def chat_session_def new_session_def)

lemma quiet_send:
  "chat s \<Longrightarrow> model s \<Longrightarrow> status_cb s \<Longrightarrow> reply_cb s \<Longrightarrow> \<not> send_lock s \<Longrightarrow>
   api_key s = Some ''key'' \<Longrightarrow>
   send_to_assistant n quiet_world msg s =
     Some (s\<lparr>events := events s @
            [GenerateContent ''Test connection'', Status ''Generating response...'',
             SendMessage msg, Reply ''ok'', Status ''Ready'']\<rparr>)"
  by (simp add: send_to_assistant_def check_connection_def quiet_world_fields Let_def emit_def
      send_status_def send_reply_def chat_send_message_def text_response_def)

text \<open>
  Claim C4. One turn of the poller has the effect of calling \<^verbatim>\<open>send_to_assistant\<close> once
  for each timer of the schedule whose time is not after \<open>now\<close>, in the order of the
  schedule, with the message \<^verbatim>\<open>WAKEUP:\<close> followed by the message of the timer, and of
  leaving in the schedule exactly the timers that were not due, in their order. No
  \<^verbatim>\<open>list.remove\<close> fails. A turn that follows at the same reading of the clock finds no
  due timer and changes nothing, so no timer is processed twice.
\<close>

theorem wakeup_turn:
  "check_wakeup_timers_turn n w now s =
     map_option
       (\<lambda>s'. (Inr (), s'\<lparr>wakeup_schedule := filter (\<lambda>t. \<not> timer_time t \<le> now) (wakeup_schedule s)\<rparr>))
       (send_all n w
          (map (\<lambda>t. ''WAKEUP:'' @ timer_message t)
             (filter (\<lambda>t. timer_time t \<le> now) (wakeup_schedule s))) s)
   \<and> (check_wakeup_timers_turn n w now s = Some (r, s') \<longrightarrow>
        check_wakeup_timers_turn n w now s' = Some (Inr (), s'))"
proof -
  have eq: "check_wakeup_timers_turn n w now s =
     map_option
       (\<lambda>s'. (Inr (), s'\<lparr>wakeup_schedule := filter (\<lambda>t. \<not> timer_time t \<le> now) (wakeup_schedule s)\<rparr>))
       (send_all n w
          (map (\<lambda>t. ''WAKEUP:'' @ timer_message t)
             (filter (\<lambda>t. timer_time t \<le> now) (wakeup_schedule s))) s)" for s
  proof (cases "wakeup_schedule s = []")
    case True
    then have "s\<lparr>wakeup_schedule := []\<rparr> = s" by simp
    with True show ?thesis by (simp add: check_wakeup_timers_turn_def)
  next
    case False
    with wakeup_loop_sends [of s "[]" "wakeup_schedule s" now n w] show ?thesis
      by (simp add: check_wakeup_timers_turn_def)
  qed
  have "check_wakeup_timers_turn n w now s' = Some (Inr (), s')"
    if "check_wakeup_timers_turn n w now s = Some (r, s')"
  proof -
    from that eq [of s]
    have "wakeup_schedule s' = filter (\<lambda>t. \<not> timer_time t \<le> now) (wakeup_schedule s)"
      by auto
    then have none: "filter (\<lambda>t. timer_time t \<le> now) (wakeup_schedule s') = []"
      and all: "filter (\<lambda>t. \<not> timer_time t \<le> now) (wakeup_schedule s') = wakeup_schedule s'"
      by (simp_all add: filter_empty_conv)
    have "s'\<lparr>wakeup_schedule := wakeup_schedule s'\<rparr> = s'" by simp
    with eq [of s'] none all show ?thesis by simp
  qed
  with eq [of s] show ?thesis by blast
qed

theorem wakeup_turn_witness:
  "check_wakeup_timers_turn 0 quiet_world 10 timer_session =
     Some (Inr (), timer_session
       \<lparr>wakeup_schedule := [WakeupTimer 20 ''later''],
        events := [GenerateContent ''Test connection'', Status ''Generating response...'',
                   SendMessage ''WAKEUP:first'', Reply ''ok'', Status ''Ready'',
                   GenerateContent ''Test connection'', Status ''Generating response...'',
                   SendMessage ''WAKEUP:second'', Reply ''ok'', Status ''Ready'']\<rparr>)
   \<and> check_wakeup_timers_turn 0 quiet_world 10
        (timer_session
           \<lparr>wakeup_schedule := [WakeupTimer 20 ''later''],
            events := [GenerateContent ''Test connection'', Status ''Generating response...'',
                       SendMessage ''WAKEUP:first'', Reply ''ok'', Status ''Ready'',
                       GenerateContent ''Test connection'', Status ''Generating response...'',
                       SendMessage ''WAKEUP:second'', Reply ''ok'', Status ''Ready'']\<rparr>) =
     Some (Inr (), timer_session
       \<lparr>wakeup_schedule := [WakeupTimer 20 ''later''],
        events := [GenerateContent ''Test connection'', Status ''Generating response...'',
                   SendMessage ''WAKEUP:first'', Reply ''ok'', Status ''Ready'',
                   GenerateContent ''Test connection'', Status ''Generating response...'',
                   SendMessage ''WAKEUP:second'', Reply ''ok'', Status ''Ready'']\<rparr>)"
proof -
  let ?s' = "timer_session
       \<lparr>wakeup_schedule := [WakeupTimer 20 ''later''],
        events := [GenerateContent ''Test connection'', Status ''Generating response...'',
                   SendMessage ''WAKEUP:first'', Reply ''ok'', Status ''Ready'',
                   GenerateContent ''Test connection'', Status ''Generating response...'',
                   SendMessage ''WAKEUP:second'', Reply ''ok'', Status ''Ready'']\<rparr>"
  have a: "check_wakeup_timers_turn 0 quiet_world 10 timer_session = Some (Inr (), ?s')"
    using wakeup_turn [of 0 quiet_world 10 timer_session]
    by (simp add: timer_session_fields quiet_send)
  from a wakeup_turn [of 0 quiet_world 10 timer_session "Inr ()" ?s'] show ?thesis
    by simp
qed

subsection \<open>Failures during a send\<close>

lemma scripted_world_fields:
  "genai_init (scripted_world script) tr = InitOk"
  "generate_content (scripted_world script) tr = None"
  "send_message (scripted_world script) tr =
     (case drop (count_sends tr - 1) script of
        [] \<Rightarrow> Inl (Exn ''network down'')
      | answer # rest \<Rightarrow> answer)"
  "json_loads (scripted_world script) = loads_empty"
  "json_dumps (scripted_world script) = dumps_plain"
  "strftime_now (scripted_world script) tr = ''Wednesday, November 04, 2026 12:00:00 PM''"
  by (simp_all add: scripted_world_def quiet_world_def)

text \<open>
  Claim C5 as stated fails on two of the faults it names. First run: the backend answers
  the message with a function call and is unreachable when the function result is sent.
  \<^verbatim>\<open>handle_function_call\<close> catches the fault and prints it; the status callback receives
  \<^verbatim>\<open>Generating response...\<close> and \<^verbatim>\<open>Ready\<close> and nothing about the fault. Second run: the
  response has no candidates; the session reports it through the reply callback, the
  status callback receives nothing after \<^verbatim>\<open>Generating response...\<close>.
\<close>

theorem fault_not_on_status_sink_counterexample:
  "map_option events
     (send_to_assistant 1
        (scripted_world [Inr (call_response ''get_current_datetime'' ''{}'')])
        ''hello'' chat_session) =
     Some [GenerateContent ''Test connection'', Status ''Generating response...'',
           SendMessage ''hello'',
           Print ''chat: Handling function call: get_current_datetime'',
           SendMessage (''Function result for get_current_datetime: '' @ [CHR 0x22]
                        @ ''Wednesday, November 04, 2026 12:00:00 PM'' @ [CHR 0x22]),
           Print ''chat: Error sending function response: network down'',
           Status ''Ready'']
   \<and> map_option events
       (send_to_assistant 1 (scripted_world [Inr (Response [])]) ''hello'' chat_session) =
     Some [GenerateContent ''Test connection'', Status ''Generating response...'',
           SendMessage ''hello'', Reply ''No response received from Gemini'']"
  by (simp add: send_to_assistant_def check_connection_def chat_session_fields
      scripted_world_fields Let_def emit_def print_def send_status_def send_reply_def
      chat_send_message_def call_response_def handle_function_call.simps loads_empty_def
      call_function_def supported_funcs_def getattr_self_def get_current_datetime_def
      dumps_plain_def count_sends_def)

lemma appends_fields:
  "appends s s' \<Longrightarrow>
   status_cb s' = status_cb s \<and> reply_cb s' = reply_cb s \<and> send_lock s' = send_lock s"
  by (auto simp add: appends_def)

lemma initialize_model_keeps:
  "initialize_model w s = (ok, s1) \<Longrightarrow>
   status_cb s1 = status_cb s \<and> reply_cb s1 = reply_cb s \<and> send_lock s1 = send_lock s"
  by (auto simp add: initialize_model_def Let_def emit_def print_def split: init_outcome.splits)

lemma check_connection_keeps:
  assumes "check_connection w s = (ok, s1)"
  shows "status_cb s1 = status_cb s \<and> reply_cb s1 = reply_cb s \<and> send_lock s1 = send_lock s"
proof (cases "api_key s = None \<or> api_key s = Some []")
  case True
  with assms show ?thesis
    by (auto simp add: check_connection_def print_def emit_def)
next
  case False
  obtain ok0 s0 where i: "(if \<not> model s then initialize_model w s else (True, s)) = (ok0, s0)"
    by (cases "if \<not> model s then initialize_model w s else (True, s)")
  then have k: "status_cb s0 = status_cb s \<and> reply_cb s0 = reply_cb s \<and> send_lock s0 = send_lock s"
    by (auto split: if_splits dest: initialize_model_keeps)
  from assms False i have "s1 = s0 \<or> appends (emit (GenerateContent ''Test connection'') s0) s1"
    by (auto simp add: check_connection_def Let_def split: bool.splits option.splits)
  then show ?thesis
  proof
    assume "s1 = s0"
    with k show ?thesis by simp
  next
    assume "appends (emit (GenerateContent ''Test connection'') s0) s1"
    from appends_fields [OF this] k show ?thesis by (simp add: emit_def)
  qed
qed

lemma send_status_ends: "status_cb s \<Longrightarrow> ends_in_emission (send_status m s)"
  by (auto simp add: ends_in_emission_def send_status_def emit_def)

lemma send_reply_ends: "reply_cb s \<Longrightarrow> ends_in_emission (send_reply m s)"
  by (auto simp add: ends_in_emission_def send_reply_def emit_def)

lemma send_error_ends:
  "status_cb s \<Longrightarrow> \<exists>tr. events (send_error e s) = tr @ [Status (''Error: '' @ str_of e)]"
  by (simp add: send_error_def Let_def send_status_def print_def emit_def)

lemma handle_gemini_response_ends:
  assumes "handle_gemini_response n w r s = Some (res, s')"
    and "status_cb s" and "reply_cb s"
  shows "(\<exists>e. res = Inl e \<and> s' = s) \<or> (res = Inr () \<and> ends_in_emission s')"
proof (cases r)
  case NoResponse
  with assms show ?thesis by (auto intro: send_reply_ends)
next
  case (Malformed e)
  with assms show ?thesis by auto
next
  case (Response cs)
  show ?thesis
  proof (cases "cs = []")
    case True
    with Response assms show ?thesis by (auto intro: send_reply_ends)
  next
    case False
    with Response assms(1) obtain s1 where
      c: "handle_candidates n w cs s = Some s1" and s': "s' = send_status ''Ready'' s1"
      and res: "res = Inr ()"
      by (auto split: option.splits)
    from handle_appends(2) [OF c] assms(2) have "status_cb s1"
      by (simp add: appends_fields)
    with s' res show ?thesis by (simp add: send_status_ends)
  qed
qed

lemma send_to_assistant_unlocks:
  "send_to_assistant n w msg s = Some s' \<Longrightarrow> \<not> send_lock s'"
  by (auto simp add: send_to_assistant_def split: if_splits)

lemma ends_in_emission_unlock [simp]:
  "ends_in_emission (s\<lparr>send_lock := b\<rparr>) = ends_in_emission s"
  by (simp add: ends_in_emission_def)

lemma send_to_assistant_ends:
  assumes "send_to_assistant n w msg s = Some s'"
    and "status_cb s" and "reply_cb s"
  shows "ends_in_emission s'"
proof -
  from assms(1) have unlocked: "\<not> send_lock s"
    by (auto simp add: send_to_assistant_def split: if_splits)
  obtain ok s1 where cc: "check_connection w (s\<lparr>send_lock := True\<rparr>) = (ok, s1)"
    by (cases "check_connection w (s\<lparr>send_lock := True\<rparr>)")
  from check_connection_keeps [OF cc] assms(2,3) have cb1: "status_cb s1" "reply_cb s1"
    by simp_all
  show ?thesis
  proof (cases ok)
    case False
    with assms(1) unlocked cc have "s' = (send_reply ''chat: failed to connect to Gemini API'' s1)
                                          \<lparr>send_lock := False\<rparr>"
      by (auto simp add: send_to_assistant_def)
    with cb1 show ?thesis by (simp add: send_reply_ends)
  next
    case True
    let ?s1 = "send_status ''Generating response...'' s1"
    obtain r s2 where m: "chat_send_message w msg ?s1 = (r, s2)"
      by (cases "chat_send_message w msg ?s1")
    from chat_send_message_appends [OF m] have "appends ?s1 s2" .
    from appends_fields [OF this] cb1 have cb2: "status_cb s2" "reply_cb s2"
      by (simp_all add: send_status_def emit_def)
    show ?thesis
    proof (cases r)
      case (Inl e)
      with assms(1) unlocked cc True m have "s' = (send_error e s2)\<lparr>send_lock := False\<rparr>"
        by (auto simp add: send_to_assistant_def)
      with send_error_ends [OF cb2(1), of e] show ?thesis
        by (auto simp add: ends_in_emission_def)
    next
      case (Inr response)
      with assms(1) unlocked cc True m obtain res s3 where
        h: "handle_gemini_response n w response s2 = Some (res, s3)"
        and s': "s' = (case res of Inl e \<Rightarrow> send_error e s3 | Inr u \<Rightarrow> s3)\<lparr>send_lock := False\<rparr>"
        by (auto simp add: send_to_assistant_def split: option.splits sum.splits)
      from handle_gemini_response_ends [OF h cb2] show ?thesis
      proof
        assume "\<exists>e. res = Inl e \<and> s3 = s2"
        then obtain e where "res = Inl e" "s3 = s2" by blast
        with s' send_error_ends [OF cb2(1), of e] show ?thesis
          by (auto simp add: ends_in_emission_def)
      next
        assume "res = Inr () \<and> ends_in_emission s3"
        with s' show ?thesis by simp
      qed
    qed
  qed
qed

text \<open>
  Claim C5, amended. No fault of the backend leaves \<^verbatim>\<open>send_to_assistant\<close>: whenever it
  returns, the send lock is free, and with both callbacks installed the trace ends in a
  call of the status or of the reply callback. A fault on the message that opens the
  exchange, a network error or a malformed response, is printed and reported through the
  status callback as \<^verbatim>\<open>Error: <message>\<close>. Absent candidates are reported through the reply
  callback as \<^verbatim>\<open>No response received from Gemini\<close>. A fault on the message that carries a
  function result is caught in \<^verbatim>\<open>handle_function_call\<close> and printed; it adds no call of a
  callback.
\<close>

theorem send_failure_paths:
  "(send_to_assistant n w msg s = Some s' \<longrightarrow> \<not> send_lock s')
   \<and> (send_to_assistant n w msg s = Some s' \<and> status_cb s \<and> reply_cb s \<longrightarrow>
        ends_in_emission s')
   \<and> (\<not> send_lock s \<and> status_cb s
        \<and> check_connection w (s\<lparr>send_lock := True\<rparr>) = (True, s1)
        \<and> chat_send_message w msg (send_status ''Generating response...'' s1) = (r, s2)
        \<and> (r = Inl e \<or> r = Inr (Malformed e)) \<longrightarrow>
        (\<exists>s3. send_to_assistant n w msg s = Some s3
              \<and> events s3 = events s2 @ [Print (''chat: Error: '' @ str_of e),
                                           Status (''Error: '' @ str_of e)]))
   \<and> (\<not> send_lock s \<and> reply_cb s
        \<and> check_connection w (s\<lparr>send_lock := True\<rparr>) = (True, s1)
        \<and> chat_send_message w msg (send_status ''Generating response...'' s1) = (r, s2)
        \<and> (r = Inr NoResponse \<or> r = Inr (Response [])) \<longrightarrow>
        (\<exists>s3. send_to_assistant n w msg s = Some s3
              \<and> events s3 = events s2 @ [Reply ''No response received from Gemini'']))
   \<and> (fc_name fc = Some func_name \<and> func_name \<noteq> []
        \<and> call_function w func_name
             (case json_loads w (fc_args fc) of Inl x \<Rightarrow> PDict [] | Inr v \<Rightarrow> v)
             (print (''chat: Handling function call: '' @ func_name) t) = (outp, t1)
        \<and> json_dumps w outp = Inr result_json
        \<and> chat_send_message w (''Function result for '' @ func_name @ '': '' @ result_json) t1
            = (Inl e, t2) \<longrightarrow>
        (\<exists>t3. handle_function_call n w fc t = Some t3
              \<and> events t3 = events t2 @ [Print (''chat: Error sending function response: ''
                                                  @ str_of e)]))"
proof (intro conjI impI)
  assume "send_to_assistant n w msg s = Some s'"
  then show "\<not> send_lock s'" by (rule send_to_assistant_unlocks)
next
  assume "send_to_assistant n w msg s = Some s' \<and> status_cb s \<and> reply_cb s"
  then show "ends_in_emission s'" by (blast intro: send_to_assistant_ends)
next
  assume a: "\<not> send_lock s \<and> status_cb s
        \<and> check_connection w (s\<lparr>send_lock := True\<rparr>) = (True, s1)
        \<and> chat_send_message w msg (send_status ''Generating response...'' s1) = (r, s2)
        \<and> (r = Inl e \<or> r = Inr (Malformed e))"
  then have cc: "check_connection w (s\<lparr>send_lock := True\<rparr>) = (True, s1)"
    and m: "chat_send_message w msg (send_status ''Generating response...'' s1) = (r, s2)"
    by simp_all
  from check_connection_keeps [OF cc] a have "status_cb s1" by simp
  with appends_fields [OF chat_send_message_appends [OF m]] have "status_cb s2"
    by (simp add: send_status_def emit_def)
  then have ev: "events (send_error e s2) =
                   events s2 @ [Print (''chat: Error: '' @ str_of e),
                                Status (''Error: '' @ str_of e)]"
    by (simp add: send_error_def Let_def send_status_def print_def emit_def)
  from a cc m have "send_to_assistant n w msg s = Some ((send_error e s2)\<lparr>send_lock := False\<rparr>)"
    by (auto simp add: send_to_assistant_def)
  with ev show "\<exists>s3. send_to_assistant n w msg s = Some s3
              \<and> events s3 = events s2 @ [Print (''chat: Error: '' @ str_of e),
                                           Status (''Error: '' @ str_of e)]"
    by simp
next
  assume a: "\<not> send_lock s \<and> reply_cb s
        \<and> check_connection w (s\<lparr>send_lock := True\<rparr>) = (True, s1)
        \<and> chat_send_message w msg (send_status ''Generating response...'' s1) = (r, s2)
        \<and> (r = Inr NoResponse \<or> r = Inr (Response []))"
  then have cc: "check_connection w (s\<lparr>send_lock := True\<rparr>) = (True, s1)"
    and m: "chat_send_message w msg (send_status ''Generating response...'' s1) = (r, s2)"
    by simp_all
  from check_connection_keeps [OF cc] a have "reply_cb s1" by simp
  with appends_fields [OF chat_send_message_appends [OF m]] have "reply_cb s2"
    by (simp add: send_status_def emit_def)
  then have ev: "events (send_reply ''No response received from Gemini'' s2) =
                   events s2 @ [Reply ''No response received from Gemini'']"
    by (simp add: send_reply_def emit_def)
  from a cc m have "send_to_assistant n w msg s =
                      Some ((send_reply ''No response received from Gemini'' s2)
                              \<lparr>send_lock := False\<rparr>)"
    by (auto simp add: send_to_assistant_def)
  with ev show "\<exists>s3. send_to_assistant n w msg s = Some s3
              \<and> events s3 = events s2 @ [Reply ''No response received from Gemini'']"
    by simp
next
  assume a: "fc_name fc = Some func_name \<and> func_name \<noteq> []
        \<and> call_function w func_name
             (case json_loads w (fc_args fc) of Inl x \<Rightarrow> PDict [] | Inr v \<Rightarrow> v)
             (print (''chat: Handling function call: '' @ func_name) t) = (outp, t1)
        \<and> json_dumps w outp = Inr result_json
        \<and> chat_send_message w (''Function result for '' @ func_name @ '': '' @ result_json) t1
            = (Inl e, t2)"
  then obtain c cs where f: "func_name = c # cs"
    by (cases func_name) auto
  from a f have "handle_function_call n w fc t =
                   Some (print (''chat: Error sending function response: '' @ str_of e) t2)"
    by (simp add: handle_function_call.simps)
  then show "\<exists>t3. handle_function_call n w fc t = Some t3
              \<and> events t3 = events t2 @ [Print (''chat: Error sending function response: ''
                                                  @ str_of e)]"
    by (simp add: print_def emit_def)
qed

theorem send_failure_paths_witness:
  "send_to_assistant 0 quiet_world ''hello'' chat_session =
     Some (chat_session\<lparr>events :=
       [GenerateContent ''Test connection'', Status ''Generating response...'',
        SendMessage ''hello'', Reply ''ok'', Status ''Ready'']\<rparr>)
   \<and> status_cb chat_session \<and> reply_cb chat_session \<and> \<not> send_lock chat_session
   \<and> \<not> send_lock (chat_session\<lparr>events :=
       [GenerateContent ''Test connection'', Status ''Generating response...'',
        SendMessage ''hello'', Reply ''ok'', Status ''Ready'']\<rparr>)
   \<and> ends_in_emission (chat_session\<lparr>events :=
       [GenerateContent ''Test connection'', Status ''Generating response...'',
        SendMessage ''hello'', Reply ''ok'', Status ''Ready'']\<rparr>)
   \<and> check_connection (scripted_world []) (chat_session\<lparr>send_lock := True\<rparr>) =
       (True, chat_session\<lparr>send_lock := True,
                events := [GenerateContent ''Test connection'']\<rparr>)
   \<and> chat_send_message (scripted_world []) ''hello''
        (send_status ''Generating response...''
           (chat_session\<lparr>send_lock := True,
              events := [GenerateContent ''Test connection'']\<rparr>)) =
       (Inl (Exn ''network down''),
        chat_session\<lparr>send_lock := True,
          events := [GenerateContent ''Test connection'', Status ''Generating response...'',
                     SendMessage ''hello'']\<rparr>)
   \<and> map_option events (send_to_assistant 0 (scripted_world []) ''hello'' chat_session) =
       Some [GenerateContent ''Test connection'', Status ''Generating response...'',
             SendMessage ''hello'', Print ''chat: Error: network down'',
             Status ''Error: network down'']
   \<and> check_connection (scripted_world [Inr (Response [])])
        (chat_session\<lparr>send_lock := True\<rparr>) =
       (True, chat_session\<lparr>send_lock := True,
                events := [GenerateContent ''Test connection'']\<rparr>)
   \<and> chat_send_message (scripted_world [Inr (Response [])]) ''hello''
        (send_status ''Generating response...''
           (chat_session\<lparr>send_lock := True,
              events := [GenerateContent ''Test connection'']\<rparr>)) =
       (Inr (Response []),
        chat_session\<lparr>send_lock := True,
          events := [GenerateContent ''Test connection'', Status ''Generating response...'',
                     SendMessage ''hello'']\<rparr>)
   \<and> map_option events
        (send_to_assistant 0 (scripted_world [Inr (Response [])]) ''hello'' chat_session) =
       Some [GenerateContent ''Test connection'', Status ''Generating response...'',
             SendMessage ''hello'', Reply ''No response received from Gemini'']
   \<and> fc_name (FunctionCall (Some ''get_current_datetime'') ''{}'')
       = Some ''get_current_datetime''
   \<and> ''get_current_datetime'' \<noteq> []
   \<and> call_function (scripted_world []) ''get_current_datetime''
        (case json_loads (scripted_world [])
                (fc_args (FunctionCall (Some ''get_current_datetime'') ''{}'')) of
           Inl x \<Rightarrow> PDict [] | Inr v \<Rightarrow> v)
        (print (''chat: Handling function call: '' @ ''get_current_datetime'') chat_session) =
       (PStr ''Wednesday, November 04, 2026 12:00:00 PM'',
        chat_session\<lparr>events :=
          [Print ''chat: Handling function call: get_current_datetime'']\<rparr>)
   \<and> json_dumps (scripted_world []) (PStr ''Wednesday, November 04, 2026 12:00:00 PM'') =
       Inr ([CHR 0x22] @ ''Wednesday, November 04, 2026 12:00:00 PM'' @ [CHR 0x22])
   \<and> chat_send_message (scripted_world [])
        (''Function result for '' @ ''get_current_datetime'' @ '': ''
         @ [CHR 0x22] @ ''Wednesday, November 04, 2026 12:00:00 PM'' @ [CHR 0x22])
        (chat_session\<lparr>events :=
           [Print ''chat: Handling function call: get_current_datetime'']\<rparr>) =
       (Inl (Exn ''network down''),
        chat_session\<lparr>events :=
          [Print ''chat: Handling function call: get_current_datetime'',
           SendMessage (''Function result for get_current_datetime: '' @ [CHR 0x22]
                        @ ''Wednesday, November 04, 2026 12:00:00 PM'' @ [CHR 0x22])]\<rparr>)
   \<and> map_option events
        (handle_function_call 0 (scripted_world [])
           (FunctionCall (Some ''get_current_datetime'') ''{}'') chat_session) =
       Some [Print ''chat: Handling function call: get_current_datetime'',
             SendMessage (''Function result for get_current_datetime: '' @ [CHR 0x22]
                          @ ''Wednesday, November 04, 2026 12:00:00 PM'' @ [CHR 0x22]),
             Print ''chat: Error sending function response: network down'']"
proof -
  let ?done = "chat_session\<lparr>events :=
       [GenerateContent ''Test connection'', Status ''Generating response...'',
        SendMessage ''hello'', Reply ''ok'', Status ''Ready'']\<rparr>"
  let ?s1 = "chat_session\<lparr>send_lock := True,
                events := [GenerateContent ''Test connection'']\<rparr>"
  let ?s2 = "chat_session\<lparr>send_lock := True,
          events := [GenerateContent ''Test connection'', Status ''Generating response...'',
                     SendMessage ''hello'']\<rparr>"
  let ?t1 = "chat_session\<lparr>events :=
          [Print ''chat: Handling function call: get_current_datetime'']\<rparr>"
  let ?t2 = "chat_session\<lparr>events :=
          [Print ''chat: Handling function call: get_current_datetime'',
           SendMessage (''Function result for get_current_datetime: '' @ [CHR 0x22]
                        @ ''Wednesday, November 04, 2026 12:00:00 PM'' @ [CHR 0x22])]\<rparr>"
  let ?json = "[CHR 0x22] @ ''Wednesday, November 04, 2026 12:00:00 PM'' @ [CHR 0x22]"
  have run: "send_to_assistant 0 quiet_world ''hello'' chat_session = Some ?done"
    by (simp add: quiet_send chat_session_fields)
  have cb: "status_cb chat_session" "reply_cb chat_session" "\<not> send_lock chat_session"
    by (simp_all add: chat_session_fields)
  have cc: "check_connection (scripted_world script) (chat_session\<lparr>send_lock := True\<rparr>)
              = (True, ?s1)" for script
    by (simp add: check_connection_def chat_session_fields scripted_world_fields Let_def
        emit_def)
  have m1: "chat_send_message (scripted_world []) ''hello''
              (send_status ''Generating response...'' ?s1) = (Inl (Exn ''network down''), ?s2)"
    by (simp add: chat_send_message_def send_status_def emit_def chat_session_fields
        scripted_world_fields Let_def)
  have m2: "chat_send_message (scripted_world [Inr (Response [])]) ''hello''
              (send_status ''Generating response...'' ?s1) = (Inr (Response []), ?s2)"
    by (simp add: chat_send_message_def send_status_def emit_def chat_session_fields
        scripted_world_fields Let_def count_sends_def)
  have f: "fc_name (FunctionCall (Some ''get_current_datetime'') ''{}'')
             = Some ''get_current_datetime''"
    by simp
  have cf: "call_function (scripted_world []) ''get_current_datetime''
        (case json_loads (scripted_world [])
                (fc_args (FunctionCall (Some ''get_current_datetime'') ''{}'')) of
           Inl x \<Rightarrow> PDict [] | Inr v \<Rightarrow> v)
        (print (''chat: Handling function call: '' @ ''get_current_datetime'') chat_session)
        = (PStr ''Wednesday, November 04, 2026 12:00:00 PM'', ?t1)"
    by (simp add: call_function_def supported_funcs_def getattr_self_def
        get_current_datetime_def scripted_world_fields loads_empty_def print_def emit_def
        chat_session_fields)
  have jd: "json_dumps (scripted_world []) (PStr ''Wednesday, November 04, 2026 12:00:00 PM'')
              = Inr ?json"
    by (simp add: scripted_world_fields dumps_plain_def)
  have m3: "chat_send_message (scripted_world [])
              (''Function result for '' @ ''get_current_datetime'' @ '': '' @ ?json) ?t1
              = (Inl (Exn ''network down''), ?t2)"
    by (simp add: chat_send_message_def emit_def chat_session_fields scripted_world_fields
        Let_def)
  note A = send_failure_paths [where n = 0 and w = quiet_world and msg = "''hello''"
      and s = chat_session and s' = ?done]
  note C = send_failure_paths [where n = 0 and w = "scripted_world []" and msg = "''hello''"
      and s = chat_session and ?s1.0 = ?s1 and r = "Inl (Exn ''network down'')"
      and ?s2.0 = ?s2 and e = "Exn ''network down''"]
  note D = send_failure_paths [where n = 0 and w = "scripted_world [Inr (Response [])]"
      and msg = "''hello''" and s = chat_session and ?s1.0 = ?s1
      and r = "Inr (Response [])" and ?s2.0 = ?s2]
  note E = send_failure_paths [where n = 0 and w = "scripted_world []"
      and fc = "FunctionCall (Some ''get_current_datetime'') ''{}''"
      and func_name = "''get_current_datetime''" and t = chat_session
      and outp = "PStr ''Wednesday, November 04, 2026 12:00:00 PM''" and ?t1.0 = ?t1
      and result_json = ?json and e = "Exn ''network down''" and ?t2.0 = ?t2]
  from A run cb have a: "\<not> send_lock ?done" "ends_in_emission ?done"
    by blast+
  from C cb cc [of "[]"] m1
  have "\<exists>s3. send_to_assistant 0 (scripted_world []) ''hello'' chat_session = Some s3
          \<and> events s3 = events ?s2 @ [Print (''chat: Error: '' @ str_of (Exn ''network down'')),
                                       Status (''Error: '' @ str_of (Exn ''network down''))]"
    by blast
  then have c: "map_option events
                  (send_to_assistant 0 (scripted_world []) ''hello'' chat_session) =
       Some [GenerateContent ''Test connection'', Status ''Generating response...'',
             SendMessage ''hello'', Print ''chat: Error: network down'',
             Status ''Error: network down'']"
    by auto
  from D cb cc [of "[Inr (Response [])]"] m2
  have "\<exists>s3. send_to_assistant 0 (scripted_world [Inr (Response [])]) ''hello'' chat_session
               = Some s3
          \<and> events s3 = events ?s2 @ [Reply ''No response received from Gemini'']"
    by blast
  then have d: "map_option events
        (send_to_assistant 0 (scripted_world [Inr (Response [])]) ''hello'' chat_session) =
       Some [GenerateContent ''Test connection'', Status ''Generating response...'',
             SendMessage ''hello'', Reply ''No response received from Gemini'']"
    by auto
  have ne: "''get_current_datetime'' \<noteq> []" by simp
  from E f ne cf jd m3
  have "\<exists>t3. handle_function_call 0 (scripted_world [])
               (FunctionCall (Some ''get_current_datetime'') ''{}'') chat_session = Some t3
          \<and> events t3 = events ?t2 @ [Print (''chat: Error sending function response: ''
                                              @ str_of (Exn ''network down''))]"
    by blast
  then have e: "map_option events
        (handle_function_call 0 (scripted_world [])
           (FunctionCall (Some ''get_current_datetime'') ''{}'') chat_session) =
       Some [Print ''chat: Handling function call: get_current_datetime'',
             SendMessage (''Function result for get_current_datetime: '' @ [CHR 0x22]
                          @ ''Wednesday, November 04, 2026 12:00:00 PM'' @ [CHR 0x22]),
             Print ''chat: Error sending function response: network down'']"
    by auto
  show ?thesis
    using run cb a cc [of "[]"] m1 c cc [of "[Inr (Response [])]"] m2 d f ne cf jd m3 e
    by (intro conjI)
qed

end
